theory Spec2Isabelle
  imports Complex_Main
begin

section \<open>JavaScript numbers\<close>

text \<open>
  A JavaScript Number is an IEEE double. The collection only computes with plane counts,
  texture sizes and indices, so a finite double is idealised as a real; what is kept of
  IEEE arithmetic is what the code can run into: \<open>NaN\<close> (from \<open>0 / 0\<close>) and the two
  infinities (from \<open>x / 0\<close>). Signed zeros and rounding are not modelled.
\<close>

datatype jsnum = NaN | NegInf | Fin real | PosInf

fun js_lt :: "jsnum \<Rightarrow> jsnum \<Rightarrow> bool" where
  "js_lt NaN _ = False"
| "js_lt _ NaN = False"
| "js_lt (Fin a) (Fin b) = (a < b)"
| "js_lt NegInf NegInf = False"
| "js_lt NegInf _ = True"
| "js_lt _ NegInf = False"
| "js_lt PosInf _ = False"
| "js_lt _ PosInf = True"

fun js_eq :: "jsnum \<Rightarrow> jsnum \<Rightarrow> bool" where
  "js_eq NaN _ = False"
| "js_eq _ NaN = False"
| "js_eq a b = (a = b)"

fun js_neg :: "jsnum \<Rightarrow> jsnum" where
  "js_neg NaN = NaN"
| "js_neg NegInf = PosInf"
| "js_neg PosInf = NegInf"
| "js_neg (Fin a) = Fin (- a)"

fun js_sign_inf :: "real \<Rightarrow> jsnum" where
  "js_sign_inf s = (if s = 0 then NaN else if 0 < s then PosInf else NegInf)"

fun js_mul :: "jsnum \<Rightarrow> jsnum \<Rightarrow> jsnum" where
  "js_mul NaN _ = NaN"
| "js_mul _ NaN = NaN"
| "js_mul (Fin a) (Fin b) = Fin (a * b)"
| "js_mul (Fin a) PosInf = js_sign_inf a"
| "js_mul (Fin a) NegInf = js_sign_inf (- a)"
| "js_mul PosInf (Fin b) = js_sign_inf b"
| "js_mul NegInf (Fin b) = js_sign_inf (- b)"
| "js_mul PosInf PosInf = PosInf"
| "js_mul NegInf NegInf = PosInf"
| "js_mul PosInf NegInf = NegInf"
| "js_mul NegInf PosInf = NegInf"

fun js_div :: "jsnum \<Rightarrow> jsnum \<Rightarrow> jsnum" where
  "js_div NaN _ = NaN"
| "js_div _ NaN = NaN"
| "js_div (Fin a) (Fin b) = (if b = 0 then js_sign_inf a else Fin (a / b))"
| "js_div (Fin a) _ = Fin 0"
| "js_div PosInf (Fin b) = (if 0 \<le> b then PosInf else NegInf)"
| "js_div NegInf (Fin b) = (if 0 \<le> b then NegInf else PosInf)"
| "js_div _ _ = NaN"

fun js_sub :: "jsnum \<Rightarrow> jsnum \<Rightarrow> jsnum" where
  "js_sub NaN _ = NaN"
| "js_sub _ NaN = NaN"
| "js_sub (Fin a) (Fin b) = Fin (a - b)"
| "js_sub (Fin a) PosInf = NegInf"
| "js_sub (Fin a) NegInf = PosInf"
| "js_sub PosInf PosInf = NaN"
| "js_sub NegInf NegInf = NaN"
| "js_sub PosInf _ = PosInf"
| "js_sub NegInf _ = NegInf"

text \<open>\<open>Math.min\<close> and \<open>Math.max\<close> return \<open>NaN\<close> as soon as one argument is \<open>NaN\<close>.\<close>

fun Math_min :: "jsnum \<Rightarrow> jsnum \<Rightarrow> jsnum" where
  "Math_min NaN _ = NaN"
| "Math_min _ NaN = NaN"
| "Math_min a b = (if js_lt b a then b else a)"

fun Math_max :: "jsnum \<Rightarrow> jsnum \<Rightarrow> jsnum" where
  "Math_max NaN _ = NaN"
| "Math_max _ NaN = NaN"
| "Math_max a b = (if js_lt a b then b else a)"

fun Math_ceil :: "jsnum \<Rightarrow> jsnum" where
  "Math_ceil (Fin a) = Fin (of_int \<lceil>a\<rceil>)"
| "Math_ceil a = a"

fun Math_floor :: "jsnum \<Rightarrow> jsnum" where
  "Math_floor (Fin a) = Fin (of_int \<lfloor>a\<rfloor>)"
| "Math_floor a = a"

abbreviation js_nat :: "nat \<Rightarrow> jsnum" where
  "js_nat n \<equiv> Fin (of_nat n)"

abbreviation js_int :: "int \<Rightarrow> jsnum" where
  "js_int i \<equiv> Fin (of_int i)"

section \<open>Planes and the object store\<close>

text \<open>
  Planes are JavaScript objects that the collection shares with its callers: \<open>add\<close>,
  \<open>remove\<close> and \<open>removeAll\<close> write the fields \<open>index\<close> and \<open>onChangeCallback\<close> of objects
  the caller still holds. So a plane is a reference into a store of plane objects.
  An object is either a \<open>Plane\<close> (normal and distance only) or a \<open>ClippingPlane\<close>
  (\<open>plane instanceof ClippingPlane\<close>), which also has an index and a change callback.
  The only callback the collection ever installs is
  \<open>function(index) { setIndexDirty(that, index); }\<close>; it is represented by the identity
  of the collection \<open>that\<close> it closes over.
\<close>

datatype cartesian3 = Cartesian3 (c3x: jsnum) (c3y: jsnum) (c3z: jsnum)

type_synonym cartesian4 = "jsnum \<times> jsnum \<times> jsnum \<times> jsnum"

type_synonym collection_id = nat

datatype plane_obj =
  Plane (normal: cartesian3) (distance: jsnum)
| ClippingPlane (normal: cartesian3) (distance: jsnum) (index: int)
    (onChangeCallback: "collection_id option")

fun instanceof_ClippingPlane :: "plane_obj \<Rightarrow> bool" where
  "instanceof_ClippingPlane (ClippingPlane _ _ _ _) = True"
| "instanceof_ClippingPlane (Plane _ _) = False"

type_synonym ref = nat
type_synonym heap = "ref \<Rightarrow> plane_obj"

section \<open>The collection\<close>

datatype Intersect = OUTSIDE | INTERSECTING | INSIDE

datatype intersect_function = unionIntersectFunction | defaultIntersectFunction

fun apply_intersect_function :: "intersect_function \<Rightarrow> Intersect \<Rightarrow> bool" where
  "apply_intersect_function unionIntersectFunction v = (v = OUTSIDE)"
| "apply_intersect_function defaultIntersectFunction v = (v = INSIDE)"

datatype pixel_datatype = FLOAT | UNSIGNED_BYTE

record texture =
  width :: jsnum
  height :: jsnum
  pixelDatatype :: pixel_datatype

type_synonym matrix4 = "jsnum list"

text \<open>
  The fields of a \<open>ClippingPlaneCollection\<close>, without the leading underscore. The
  styling fields \<open>edgeColor\<close> and \<open>edgeWidth\<close> and the \<open>_owner\<close> reference are left out:
  no function modelled here reads them. A typed array is the list of its elements, and
  \<open>undefined\<close> is \<open>None\<close>.
\<close>

record collection =
  planes :: "ref list"
  containsUntrackablePlanes :: bool
  dirtyIndex :: int
  multipleDirtyPlanes :: bool
  enabled :: bool
  modelMatrix :: matrix4
  unionClippingRegions :: bool
  testIntersection :: intersect_function
  uint8View :: "jsnum list option"
  float32View :: "jsnum list option"
  clippingPlanesTexture :: "texture option"

text \<open>
  What the file uses of the rest of the library and of the host is a parameter:
  \<open>ContextLimits.maximumTextureSize\<close>, \<open>Plane.equals\<close>, \<open>Matrix4.multiply\<close>,
  \<open>Plane.transform\<close>,
  \<open>AttributeCompression.octEncodeToCartesian4\<close>, \<open>Cartesian4.packFloat\<close>, and the
  conversions a \<open>Float32Array\<close> and a \<open>Uint8Array\<close> apply to a Number stored in them.
\<close>

record env =
  maximumTextureSize :: jsnum
  Plane_equals :: "plane_obj \<Rightarrow> plane_obj \<Rightarrow> bool"
  Matrix4_multiply :: "matrix4 \<Rightarrow> matrix4 \<Rightarrow> matrix4"
  Plane_transform :: "plane_obj \<Rightarrow> matrix4 \<Rightarrow> plane_obj"
  octEncodeToCartesian4 :: "cartesian3 \<Rightarrow> cartesian4"
  packFloat :: "jsnum \<Rightarrow> cartesian4"
  toFloat32 :: "jsnum \<Rightarrow> jsnum"
  toUint8 :: "jsnum \<Rightarrow> jsnum"

subsection \<open>computeIntersectionWithBoundingVolume\<close>

text \<open>
  The loop over \<open>planes[0 .. length - 1]\<close>; \<open>classify\<close> is
  \<open>tileBoundingVolume.intersectPlane\<close> after \<open>Plane.transform\<close>. A \<open>return\<close> inside the
  loop is the branch that does not recurse.
\<close>

fun intersection_loop ::
  "(plane_obj \<Rightarrow> Intersect) \<Rightarrow> intersect_function \<Rightarrow> heap \<Rightarrow> ref list \<Rightarrow> Intersect \<Rightarrow> Intersect"
where
  "intersection_loop classify test h [] intersection = intersection"
| "intersection_loop classify test h (r # rs) intersection =
     (let val = classify (h r) in
      if val = INTERSECTING then intersection_loop classify test h rs val
      else if apply_intersect_function test val then val
      else intersection_loop classify test h rs intersection)"

definition computeIntersectionWithBoundingVolume ::
  "env \<Rightarrow> heap \<Rightarrow> collection \<Rightarrow> (plane_obj \<Rightarrow> Intersect) \<Rightarrow> matrix4 option \<Rightarrow> Intersect"
where
  "computeIntersectionWithBoundingVolume e h c intersectPlane transform =
     (let len = length (planes c);
          m = (case transform of
                 None \<Rightarrow> modelMatrix c
               | Some t \<Rightarrow> Matrix4_multiply e (modelMatrix c) t);
          intersection = (if \<not> unionClippingRegions c \<and> len > 0 then OUTSIDE else INSIDE)
      in intersection_loop (\<lambda>plane. intersectPlane (Plane_transform e plane m))
           (testIntersection c) h (planes c) intersection)"


subsection \<open>The constructor, the setters and the dirty tracker\<close>

datatype error = DeveloperError | TypeError | RangeError

definition setIndexDirty :: "collection \<Rightarrow> int \<Rightarrow> collection" where
  "setIndexDirty c i =
     c\<lparr>multipleDirtyPlanes := multipleDirtyPlanes c \<or> (dirtyIndex c \<noteq> -1 \<and> dirtyIndex c \<noteq> i),
       dirtyIndex := i\<rparr>"

text \<open>
  \<open>add\<close> writes the plane object when it is a \<open>ClippingPlane\<close>; \<open>self\<close> is the
  collection \<open>this\<close>, which the installed callback closes over.
\<close>

definition add :: "collection_id \<Rightarrow> ref \<Rightarrow> heap \<times> collection \<Rightarrow> heap \<times> collection" where
  "add self plane hc =
     (let h = fst hc; c = snd hc;
          newPlaneIndex = int (length (planes c));
          (h1, c1) = (case h plane of
                        ClippingPlane n d _ _ \<Rightarrow>
                          (h(plane := ClippingPlane n d newPlaneIndex (Some self)), c)
                      | Plane _ _ \<Rightarrow> (h, c\<lparr>containsUntrackablePlanes := True\<rparr>));
          c2 = setIndexDirty c1 newPlaneIndex
      in (h1, c2\<lparr>planes := planes c2 @ [plane]\<rparr>))"

record options =
  opt_planes :: "ref list option"
  opt_enabled :: "bool option"
  opt_modelMatrix :: "matrix4 option"
  opt_unionClippingRegions :: "bool option"

definition Matrix4_IDENTITY :: matrix4 where
  "Matrix4_IDENTITY =
     map Fin [1, 0, 0, 0,  0, 1, 0, 0,  0, 0, 1, 0,  0, 0, 0, 1]"

definition defaultValue :: "'a option \<Rightarrow> 'a \<Rightarrow> 'a" where
  "defaultValue a b = (case a of None \<Rightarrow> b | Some v \<Rightarrow> v)"

definition ClippingPlaneCollection ::
  "collection_id \<Rightarrow> options \<Rightarrow> heap \<Rightarrow> heap \<times> collection"
where
  "ClippingPlaneCollection self opts h =
     (let c0 = \<lparr>planes = [], containsUntrackablePlanes = False, dirtyIndex = -1,
                multipleDirtyPlanes = False, enabled = True, modelMatrix = Matrix4_IDENTITY,
                unionClippingRegions = False, testIntersection = defaultIntersectFunction,
                uint8View = None, float32View = None, clippingPlanesTexture = None\<rparr>;
          (h1, c1) = (case opt_planes opts of
                        None \<Rightarrow> (h, c0)
                      | Some ps \<Rightarrow> fold (add self) ps (h, c0));
          u = defaultValue (opt_unionClippingRegions opts) False
      in (h1, c1\<lparr>enabled := defaultValue (opt_enabled opts) True,
                 modelMatrix := defaultValue (opt_modelMatrix opts) Matrix4_IDENTITY,
                 unionClippingRegions := u,
                 testIntersection :=
                   (if u then unionIntersectFunction else defaultIntersectFunction)\<rparr>))"

definition set_unionClippingRegions :: "bool \<Rightarrow> collection \<Rightarrow> collection" where
  "set_unionClippingRegions v c =
     (if unionClippingRegions c = v then c
      else c\<lparr>unionClippingRegions := v,
             testIntersection := (if v then unionIntersectFunction else defaultIntersectFunction)\<rparr>)"

definition set_enabled :: "bool \<Rightarrow> collection \<Rightarrow> collection" where
  "set_enabled v c = (if enabled c = v then c else c\<lparr>enabled := v\<rparr>)"

definition clippingPlanesState :: "collection \<Rightarrow> int" where
  "clippingPlanesState c =
     (if unionClippingRegions c then int (length (planes c)) else - int (length (planes c)))"

subsection \<open>get, contains, remove, removeAll\<close>

text \<open>
  \<open>get\<close> can be handed any JavaScript value; \<open>Check.typeOf.number\<close> throws a
  \<open>DeveloperError\<close> unless it is a Number. \<open>this._planes[index]\<close> is the element when
  \<open>index\<close> is an integer in range and \<open>undefined\<close> (here \<open>None\<close>) for every other
  Number.
\<close>

datatype js_value = JSNumber jsnum | JSNotANumber

fun array_get :: "'a list \<Rightarrow> jsnum \<Rightarrow> 'a option" where
  "array_get xs (Fin r) =
     (if of_int \<lfloor>r\<rfloor> = r \<and> 0 \<le> r \<and> r < of_nat (length xs)
      then Some (xs ! nat \<lfloor>r\<rfloor>) else None)"
| "array_get xs _ = None"

fun get :: "collection \<Rightarrow> js_value \<Rightarrow> error + ref option" where
  "get c JSNotANumber = Inl DeveloperError"
| "get c (JSNumber i) = Inr (array_get (planes c) i)"

fun indexOf_loop ::
  "(plane_obj \<Rightarrow> plane_obj \<Rightarrow> bool) \<Rightarrow> heap \<Rightarrow> ref list \<Rightarrow> plane_obj \<Rightarrow> int \<Rightarrow> int"
where
  "indexOf_loop eq h [] plane i = -1"
| "indexOf_loop eq h (r # rs) plane i =
     (if eq (h r) plane then i else indexOf_loop eq h rs plane (i + 1))"

definition indexOf :: "env \<Rightarrow> heap \<Rightarrow> ref list \<Rightarrow> ref \<Rightarrow> int" where
  "indexOf e h ps plane = indexOf_loop (Plane_equals e) h ps (h plane) 0"

definition contains :: "env \<Rightarrow> heap \<Rightarrow> collection \<Rightarrow> ref \<Rightarrow> bool" where
  "contains e h c clippingPlane = (indexOf e h (planes c) clippingPlane \<noteq> -1)"

text \<open>
  The shifting loop of \<open>remove\<close>: \<open>for (i = index; i < length; ++i)\<close> with
  \<open>length = planes.length - 1\<close>, so \<open>planes[i + 1]\<close> is always an element.
\<close>

function shift_loop :: "heap \<Rightarrow> ref list \<Rightarrow> nat \<Rightarrow> nat \<Rightarrow> heap \<times> ref list" where
  "shift_loop h ps i len =
     (if i < len then
        (let planeToKeep = ps ! (i + 1);
             ps1 = ps[i := planeToKeep];
             h1 = (case h planeToKeep of
                     ClippingPlane n d _ cb \<Rightarrow> h(planeToKeep := ClippingPlane n d (int i) cb)
                   | Plane _ _ \<Rightarrow> h)
         in shift_loop h1 ps1 (i + 1) len)
      else (h, ps))"
  by pat_completeness auto
termination
  by (relation "measure (\<lambda>(h, ps, i, len). len - i)") auto

declare shift_loop.simps [simp del]

definition remove :: "env \<Rightarrow> ref \<Rightarrow> heap \<times> collection \<Rightarrow> bool \<times> heap \<times> collection" where
  "remove e clippingPlane hc =
     (let h = fst hc; c = snd hc;
          ps = planes c;
          i = indexOf e h ps clippingPlane
      in if i = -1 then (False, h, c)
         else
           (let h1 = (case h clippingPlane of
                        ClippingPlane n d _ _ \<Rightarrow> h(clippingPlane := ClippingPlane n d (-1) None)
                      | Plane _ _ \<Rightarrow> h);
                len = length ps - 1;
                (h2, ps2) = shift_loop h1 ps (nat i) len
            in (True, h2, c\<lparr>multipleDirtyPlanes := True, planes := take len ps2\<rparr>)))"

fun removeAll_loop :: "heap \<Rightarrow> ref list \<Rightarrow> heap" where
  "removeAll_loop h [] = h"
| "removeAll_loop h (r # rs) =
     removeAll_loop
       (case h r of
          ClippingPlane n d _ _ \<Rightarrow> h(r := ClippingPlane n d (-1) None)
        | Plane _ _ \<Rightarrow> h) rs"

definition removeAll :: "heap \<times> collection \<Rightarrow> heap \<times> collection" where
  "removeAll hc =
     (let h = fst hc; c = snd hc
      in (removeAll_loop h (planes c), c\<lparr>multipleDirtyPlanes := True, planes := []\<rparr>))"

subsection \<open>The encoders\<close>

text \<open>
  \<open>planes[i]\<close> for a loop counter: the element, or \<open>undefined\<close> out of range, and then
  \<open>plane.normal\<close> throws a \<open>TypeError\<close>. So does a store into a view that was never
  allocated. A store into a typed array beyond its length is ignored, which is what
  \<open>xs[k := v]\<close> does.
\<close>

definition planes_at :: "ref list \<Rightarrow> int \<Rightarrow> ref option" where
  "planes_at ps i = (if 0 \<le> i \<and> i < int (length ps) then Some (ps ! nat i) else None)"

function packPlanesAsUint8_loop ::
  "env \<Rightarrow> heap \<Rightarrow> ref list \<Rightarrow> jsnum list option \<Rightarrow> nat \<Rightarrow> int \<Rightarrow> int \<Rightarrow> error + jsnum list option"
where
  "packPlanesAsUint8_loop e h ps view byteIndex i endIndex =
     (if i < endIndex then
        (case planes_at ps i of
           None \<Rightarrow> Inl TypeError
         | Some r \<Rightarrow>
             (case view of
                None \<Rightarrow> Inl TypeError
              | Some v \<Rightarrow>
                  (let plane = h r;
                       (ox, oy, oz, ow) = octEncodeToCartesian4 e (normal plane);
                       v1 = v[byteIndex := toUint8 e ox];
                       v2 = v1[byteIndex + 1 := toUint8 e oy];
                       v3 = v2[byteIndex + 2 := toUint8 e oz];
                       v4 = v3[byteIndex + 3 := toUint8 e ow];
                       (dx, dy, dz, dw) = packFloat e (distance plane);
                       v5 = v4[byteIndex + 4 := toUint8 e dx];
                       v6 = v5[byteIndex + 5 := toUint8 e dy];
                       v7 = v6[byteIndex + 6 := toUint8 e dz];
                       v8 = v7[byteIndex + 7 := toUint8 e dw]
                   in packPlanesAsUint8_loop e h ps (Some v8) (byteIndex + 8) (i + 1) endIndex)))
      else Inr view)"
  by pat_completeness auto
termination
  by (relation "measure (\<lambda>(e, h, ps, view, byteIndex, i, endIndex). nat (endIndex - i))") auto

declare packPlanesAsUint8_loop.simps [simp del]

definition packPlanesAsUint8 ::
  "env \<Rightarrow> heap \<Rightarrow> collection \<Rightarrow> int \<Rightarrow> int \<Rightarrow> error + collection"
where
  "packPlanesAsUint8 e h c startIndex endIndex =
     (case packPlanesAsUint8_loop e h (planes c) (uint8View c) 0 startIndex endIndex of
        Inl err \<Rightarrow> Inl err
      | Inr view \<Rightarrow> Inr (c\<lparr>uint8View := view\<rparr>))"

function packPlanesAsFloats_loop ::
  "env \<Rightarrow> heap \<Rightarrow> ref list \<Rightarrow> jsnum list option \<Rightarrow> nat \<Rightarrow> int \<Rightarrow> int \<Rightarrow> error + jsnum list option"
where
  "packPlanesAsFloats_loop e h ps view floatIndex i endIndex =
     (if i < endIndex then
        (case planes_at ps i of
           None \<Rightarrow> Inl TypeError
         | Some r \<Rightarrow>
             (case view of
                None \<Rightarrow> Inl TypeError
              | Some v \<Rightarrow>
                  (let plane = h r;
                       n = normal plane;
                       v1 = v[floatIndex := toFloat32 e (c3x n)];
                       v2 = v1[floatIndex + 1 := toFloat32 e (c3y n)];
                       v3 = v2[floatIndex + 2 := toFloat32 e (c3z n)];
                       v4 = v3[floatIndex + 3 := toFloat32 e (distance plane)]
                   in packPlanesAsFloats_loop e h ps (Some v4) (floatIndex + 4) (i + 1) endIndex)))
      else Inr view)"
  by pat_completeness auto
termination
  by (relation "measure (\<lambda>(e, h, ps, view, floatIndex, i, endIndex). nat (endIndex - i))") auto

declare packPlanesAsFloats_loop.simps [simp del]

definition packPlanesAsFloats ::
  "env \<Rightarrow> heap \<Rightarrow> collection \<Rightarrow> int \<Rightarrow> int \<Rightarrow> error + collection"
where
  "packPlanesAsFloats e h c startIndex endIndex =
     (case packPlanesAsFloats_loop e h (planes c) (float32View c) 0 startIndex endIndex of
        Inl err \<Rightarrow> Inl err
      | Inr view \<Rightarrow> Inr (c\<lparr>float32View := view\<rparr>))"

subsection \<open>computeTextureResolution\<close>

definition computeTextureResolution :: "env \<Rightarrow> jsnum \<Rightarrow> jsnum \<times> jsnum" where
  "computeTextureResolution e pixelsNeeded =
     (let maxSize = maximumTextureSize e;
          w = Math_min pixelsNeeded maxSize;
          h = Math_ceil (js_div pixelsNeeded w)
      in (Math_max w (Fin 1), Math_max h (Fin 1)))"

subsection \<open>update\<close>

record Context =
  floatingPointTexture :: bool

record frameState =
  fs_context :: Context

definition useFloatTexture :: "Context \<Rightarrow> bool" where
  "useFloatTexture ctx = floatingPointTexture ctx"

text \<open>
  \<open>new Float32Array(n)\<close> and \<open>new Uint8Array(n)\<close>: \<open>n\<close> is truncated to an integer,
  \<open>NaN\<close> counts as 0, a negative or too large length is a \<open>RangeError\<close>; the array is
  filled with zeros.
\<close>

fun new_typed_array :: "jsnum \<Rightarrow> error + jsnum list" where
  "new_typed_array NaN = Inr []"
| "new_typed_array (Fin r) =
     (let n = (if 0 \<le> r then \<lfloor>r\<rfloor> else \<lceil>r\<rceil>)
      in if n < 0 \<or> 2 ^ 53 - 1 < n then Inl RangeError
         else Inr (replicate (nat n) (Fin 0)))"
| "new_typed_array _ = Inl RangeError"

text \<open>
  The texture is an object of the renderer. \<open>update\<close> reads its \<open>width\<close> and \<open>height\<close>
  and calls its constructor, \<open>destroy\<close> and \<open>copyFrom\<close>; the model returns these calls,
  in order, next to the new state of the collection. \<open>copyFrom\<close> is called with a source
  \<open>{width, height, arrayBufferView}\<close> and, for a partial update, the two offsets.
\<close>

datatype gpu_call =
  Texture_destroy texture
| Texture_new texture
| Texture_copyFrom texture jsnum jsnum "jsnum list option" "jsnum option" "jsnum option"

text \<open>
  Lines 452 to 506 of the source: the texture that \<open>update\<close> goes on with, after
  destroying and recreating it where the resize test says so.
\<close>

definition pixelsNeeded_of :: "bool \<Rightarrow> collection \<Rightarrow> jsnum" where
  "pixelsNeeded_of useFloat c =
     (if useFloat then js_nat (length (planes c))
      else js_mul (js_nat (length (planes c))) (Fin 2))"

definition must_recreate :: "texture \<Rightarrow> jsnum \<Rightarrow> bool" where
  "must_recreate t pixelsNeeded =
     (let currentPixelCount = js_mul (width t) (height t)
      in js_lt currentPixelCount pixelsNeeded
         \<or> js_lt pixelsNeeded (js_mul (Fin 0.25) currentPixelCount))"

definition update_texture ::
  "env \<Rightarrow> bool \<Rightarrow> collection \<Rightarrow> error + collection \<times> texture \<times> gpu_call list"
where
  "update_texture e useFloat c =
     (let pixelsNeeded = pixelsNeeded_of useFloat c;
          (rx, ry) = computeTextureResolution e pixelsNeeded;
          (kept, calls) =
            (case clippingPlanesTexture c of
               None \<Rightarrow> (None, [])
             | Some t \<Rightarrow>
                 if must_recreate t pixelsNeeded then (None, [Texture_destroy t])
                 else (Some t, []))
      in case kept of
           Some t \<Rightarrow> Inr (c, t, calls)
         | None \<Rightarrow>
             (let rx2 = js_mul rx (Fin 2);
                  t = \<lparr>width = rx2, height = ry,
                       pixelDatatype = (if useFloat then FLOAT else UNSIGNED_BYTE)\<rparr>
              in case new_typed_array (js_mul (js_mul rx2 ry) (Fin 4)) of
                   Inl err \<Rightarrow> Inl err
                 | Inr arr \<Rightarrow>
                     Inr ((if useFloat then c\<lparr>float32View := Some arr\<rparr>
                           else c\<lparr>uint8View := Some arr\<rparr>)
                            \<lparr>clippingPlanesTexture := Some t, multipleDirtyPlanes := True\<rparr>,
                          t, calls @ [Texture_new t])))"

text \<open>Lines 517 to 550: the four encode-and-upload branches.\<close>

definition update_refresh ::
  "env \<Rightarrow> bool \<Rightarrow> heap \<Rightarrow> collection \<Rightarrow> texture \<Rightarrow> bool \<Rightarrow> error + collection \<times> gpu_call list"
where
  "update_refresh e useFloat h c t refreshFullTexture =
     (if \<not> refreshFullTexture then
        (let di = dirtyIndex c;
             offsetY = Math_floor (js_div (js_int di) (width t));
             offsetX = Math_floor (js_sub (js_int di) (js_mul offsetY (width t)))
         in if useFloat then
              (case packPlanesAsFloats e h c di (di + 1) of
                 Inl err \<Rightarrow> Inl err
               | Inr c1 \<Rightarrow>
                   Inr (c1, [Texture_copyFrom t (Fin 1) (Fin 1) (float32View c1)
                               (Some offsetX) (Some offsetY)]))
            else
              (case packPlanesAsUint8 e h c di (di + 1) of
                 Inl err \<Rightarrow> Inl err
               | Inr c1 \<Rightarrow>
                   Inr (c1, [Texture_copyFrom t (Fin 2) (Fin 1) (uint8View c1)
                               (Some offsetX) (Some offsetY)])))
      else if useFloat then
        (case packPlanesAsFloats e h c 0 (int (length (planes c))) of
           Inl err \<Rightarrow> Inl err
         | Inr c1 \<Rightarrow>
             Inr (c1, [Texture_copyFrom t (width t) (height t) (float32View c1) None None]))
      else
        (case packPlanesAsUint8 e h c 0 (int (length (planes c))) of
           Inl err \<Rightarrow> Inl err
         | Inr c1 \<Rightarrow>
             Inr (c1, [Texture_copyFrom t (width t) (height t) (uint8View c1) None None])))"

definition update ::
  "env \<Rightarrow> frameState \<Rightarrow> heap \<Rightarrow> collection \<Rightarrow> error + collection \<times> gpu_call list"
where
  "update e fs h c =
     (let useFloat = useFloatTexture (fs_context fs)
      in case update_texture e useFloat c of
           Inl err \<Rightarrow> Inl err
         | Inr (c1, t, calls) \<Rightarrow>
             (let refreshFullTexture = multipleDirtyPlanes c1 \<or> containsUntrackablePlanes c1
              in if \<not> refreshFullTexture \<and> dirtyIndex c1 = -1 then Inr (c1, calls)
                 else
                   (case update_refresh e useFloat h c1 t refreshFullTexture of
                      Inl err \<Rightarrow> Inl err
                    | Inr (c2, calls2) \<Rightarrow>
                        Inr (c2\<lparr>multipleDirtyPlanes := False, dirtyIndex := -1\<rparr>,
                             calls @ calls2))))"


section \<open>The collection in use\<close>

subsection \<open>Changing a plane\<close>

text \<open>
  Modelled from the spec: the setters of \<open>ClippingPlane\<close> for \<open>normal\<close> and \<open>distance\<close>,
  which are in another file of the repository. The spec says of a plane's \<open>onChange\<close>:
  "optional callback invoked with the plane's current index whenever normal/distance
  mutate". The callback installed by collection \<open>self\<close> runs \<open>setIndexDirty\<close> on it; a
  callback of another collection leaves this one alone, and a \<open>Plane\<close> has no callback.
\<close>

definition set_plane ::
  "collection_id \<Rightarrow> ref \<Rightarrow> cartesian3 \<Rightarrow> jsnum \<Rightarrow> heap \<times> collection \<Rightarrow> heap \<times> collection"
where
  "set_plane self r n d hc =
     (let h = fst hc; c = snd hc
      in case h r of
           Plane _ _ \<Rightarrow> (h(r := Plane n d), c)
         | ClippingPlane _ _ i cb \<Rightarrow>
             (h(r := ClippingPlane n d i cb),
              if cb = Some self then setIndexDirty c i else c))"

subsection \<open>Operations on one collection\<close>

text \<open>
  The state of a program that uses one collection: the plane objects, the collection, and
  whether \<open>destroy\<close> was called.

  Modelled from the spec: \<open>destroyObject\<close>, which is in another file of the repository.
  The spec says that "invoking any operation other than \<open>isDestroyed\<close> after \<open>destroy\<close>"
  is a fatal contract error, so a method called on a destroyed collection is a
  \<open>DeveloperError\<close>. Property setters and the callbacks of planes are not methods of the
  object and go on working.

  An operation that throws ends the run: what the collection looks like after an
  exception is not modelled.
\<close>

record world =
  w_heap :: heap
  w_coll :: collection
  w_destroyed :: bool

datatype operation =
  Add ref
| Remove ref
| RemoveAll
| Update frameState
| SetPlane ref cartesian3 jsnum
| SetUnionClippingRegions bool
| SetEnabled bool
| Destroy

definition destroy :: "collection \<Rightarrow> collection \<times> gpu_call list" where
  "destroy c =
     (c\<lparr>clippingPlanesTexture := None\<rparr>,
      case clippingPlanesTexture c of None \<Rightarrow> [] | Some t \<Rightarrow> [Texture_destroy t])"

fun step :: "env \<Rightarrow> collection_id \<Rightarrow> operation \<Rightarrow> world \<Rightarrow> error + world \<times> gpu_call list" where
  "step e self (Add p) w =
     (if w_destroyed w then Inl DeveloperError
      else (let (h, c) = add self p (w_heap w, w_coll w)
            in Inr (w\<lparr>w_heap := h, w_coll := c\<rparr>, [])))"
| "step e self (Remove p) w =
     (if w_destroyed w then Inl DeveloperError
      else (let (found, h, c) = remove e p (w_heap w, w_coll w)
            in Inr (w\<lparr>w_heap := h, w_coll := c\<rparr>, [])))"
| "step e self RemoveAll w =
     (if w_destroyed w then Inl DeveloperError
      else (let (h, c) = removeAll (w_heap w, w_coll w)
            in Inr (w\<lparr>w_heap := h, w_coll := c\<rparr>, [])))"
| "step e self (Update fs) w =
     (if w_destroyed w then Inl DeveloperError
      else (case update e fs (w_heap w) (w_coll w) of
              Inl err \<Rightarrow> Inl err
            | Inr (c, calls) \<Rightarrow> Inr (w\<lparr>w_coll := c\<rparr>, calls)))"
| "step e self (SetPlane r n d) w =
     (let (h, c) = set_plane self r n d (w_heap w, w_coll w)
      in Inr (w\<lparr>w_heap := h, w_coll := c\<rparr>, []))"
| "step e self (SetUnionClippingRegions v) w =
     Inr (w\<lparr>w_coll := set_unionClippingRegions v (w_coll w)\<rparr>, [])"
| "step e self (SetEnabled v) w =
     Inr (w\<lparr>w_coll := set_enabled v (w_coll w)\<rparr>, [])"
| "step e self Destroy w =
     (if w_destroyed w then Inl DeveloperError
      else (let (c, calls) = destroy (w_coll w)
            in Inr (w\<lparr>w_coll := c, w_destroyed := True\<rparr>, calls)))"

fun run :: "env \<Rightarrow> collection_id \<Rightarrow> operation list \<Rightarrow> world \<Rightarrow> error + world \<times> gpu_call list" where
  "run e self [] w = Inr (w, [])"
| "run e self (op # ops) w =
     (case step e self op w of
        Inl err \<Rightarrow> Inl err
      | Inr (w1, calls1) \<Rightarrow>
          (case run e self ops w1 of
             Inl err \<Rightarrow> Inl err
           | Inr (w2, calls2) \<Rightarrow> Inr (w2, calls1 @ calls2)))"

subsection \<open>The dirty state\<close>

text \<open>
  The three dirty states of the spec, read off the two fields \<open>_multipleDirtyPlanes\<close> and
  \<open>_dirtyIndex\<close>, ordered from clean to multiple.
\<close>

datatype dirty_state = Clean | Single int | Multiple

definition dirty_state_of :: "collection \<Rightarrow> dirty_state" where
  "dirty_state_of c =
     (if multipleDirtyPlanes c then Multiple
      else if dirtyIndex c = -1 then Clean
      else Single (dirtyIndex c))"



subsection \<open>The classification algorithm as the spec words it\<close>

text \<open>
  "Let result = INSIDE if union mode or the set is empty; else result = OUTSIDE. For each
  plane in index order: if the result is INTERSECTING, set result = INTERSECTING and
  continue; otherwise apply the mode's early-exit predicate (OUTSIDE triggers exit in
  union mode, INSIDE triggers exit in intersection mode); if triggered, return that
  classification immediately. After all planes are processed, return result."
  \<open>vs\<close> are the classifications the volume gives for the planes, in index order.
\<close>

fun spec_scan :: "bool \<Rightarrow> Intersect list \<Rightarrow> Intersect \<Rightarrow> Intersect" where
  "spec_scan u [] result = result"
| "spec_scan u (v # vs) result =
     (if v = INTERSECTING then spec_scan u vs INTERSECTING
      else if (u \<and> v = OUTSIDE) \<or> (\<not> u \<and> v = INSIDE) then v
      else spec_scan u vs result)"

definition spec_classification :: "bool \<Rightarrow> Intersect list \<Rightarrow> Intersect" where
  "spec_classification u vs = spec_scan u vs (if u \<or> vs = [] then INSIDE else OUTSIDE)"

text \<open>
  The collection keeps the mode twice: as the flag \<open>_unionClippingRegions\<close> and as the
  function \<open>_testIntersection\<close>. The constructor and the setter write both.
\<close>

definition mode_consistent :: "collection \<Rightarrow> bool" where
  "mode_consistent c =
     (testIntersection c =
        (if unionClippingRegions c then unionIntersectFunction else defaultIntersectFunction))"

subsection \<open>What an encoded plane looks like\<close>

definition float_slots :: "env \<Rightarrow> plane_obj \<Rightarrow> jsnum list" where
  "float_slots e p =
     [toFloat32 e (c3x (normal p)), toFloat32 e (c3y (normal p)),
      toFloat32 e (c3z (normal p)), toFloat32 e (distance p)]"

definition byte_slots :: "env \<Rightarrow> plane_obj \<Rightarrow> jsnum list" where
  "byte_slots e p =
     (let (ox, oy, oz, ow) = octEncodeToCartesian4 e (normal p);
          (dx, dy, dz, dw) = packFloat e (distance p)
      in map (toUint8 e) [ox, oy, oz, ow, dx, dy, dz, dw])"

text \<open>Storing a list of numbers into a view from slot \<open>k\<close> on, one store after the other.\<close>

fun store_slots :: "jsnum list \<Rightarrow> nat \<Rightarrow> jsnum list \<Rightarrow> jsnum list" where
  "store_slots v k [] = v"
| "store_slots v k (a # as) = store_slots (v[k := a]) (k + 1) as"

text \<open>
  The view and the layout that \<open>update\<close> works with on a host with or without float
  textures: a plane takes 4 floats or 8 bytes.
\<close>

definition view_in_use :: "bool \<Rightarrow> collection \<Rightarrow> jsnum list option" where
  "view_in_use useFloat c = (if useFloat then float32View c else uint8View c)"

definition stride_of :: "bool \<Rightarrow> nat" where
  "stride_of useFloat = (if useFloat then 4 else 8)"

definition slots_of :: "env \<Rightarrow> bool \<Rightarrow> plane_obj \<Rightarrow> jsnum list" where
  "slots_of e useFloat = (if useFloat then float_slots e else byte_slots e)"

text \<open>
  What encoding the whole plane sequence into a view \<open>v0\<close> gives: a view \<open>v\<close> of the same
  length, in which slot \<open>p\<close> holds slot \<open>p mod stride\<close> of the encoding of plane
  \<open>p div stride\<close> as long as there is such a plane, and what \<open>v0\<close> held beyond the last
  plane.
\<close>

definition planes_stored ::
  "(plane_obj \<Rightarrow> jsnum list) \<Rightarrow> nat \<Rightarrow> heap \<Rightarrow> ref list \<Rightarrow> jsnum list \<Rightarrow> jsnum list \<Rightarrow> bool"
where
  "planes_stored slots stride h ps v0 v =
     (length v = length v0
      \<and> (\<forall>p < length v0.
            v ! p = (if p < stride * length ps then slots (h (ps ! (p div stride))) ! (p mod stride)
                     else v0 ! p)))"

text \<open>
  A view holds the whole plane sequence when it is long enough for all the planes and
  plane \<open>j\<close> stands in the slots from \<open>stride * j\<close> on.
\<close>

definition holds_all_planes ::
  "(plane_obj \<Rightarrow> jsnum list) \<Rightarrow> nat \<Rightarrow> heap \<Rightarrow> ref list \<Rightarrow> jsnum list \<Rightarrow> bool"
where
  "holds_all_planes slots stride h ps v =
     (stride * length ps \<le> length v
      \<and> (\<forall>j < length ps. \<forall>q < stride. v ! (stride * j + q) = slots (h (ps ! j)) ! q))"

text \<open>
  A full refresh, from the collection \<open>c1\<close> before the encoding to the collection \<open>c2\<close>
  after it: the view of the layout in use is the old view with the whole plane sequence
  encoded into it, and the upload is \<open>copyFrom\<close> of that view with the texture's own
  width and height and no offsets. (A view that was never allocated is handed over as
  \<open>undefined\<close>; the code gets that far only when there are no planes.)
\<close>

definition full_refresh ::
  "env \<Rightarrow> bool \<Rightarrow> heap \<Rightarrow> collection \<Rightarrow> collection \<Rightarrow> texture \<Rightarrow> gpu_call \<Rightarrow> bool"
where
  "full_refresh e useFloat h c1 c2 t call =
     (call = Texture_copyFrom t (width t) (height t) (view_in_use useFloat c2) None None
      \<and> (case view_in_use useFloat c1 of
            None \<Rightarrow> planes c1 = [] \<and> view_in_use useFloat c2 = None
          | Some v0 \<Rightarrow>
              (\<exists>v. view_in_use useFloat c2 = Some v
                   \<and> planes_stored (slots_of e useFloat) (stride_of useFloat) h (planes c1) v0 v)))"

text \<open>
  The buffer of a collection is sized when its texture, if it has one, is a whole number
  of pixels wide and tall and the view in use has four slots for each pixel of it. This
  is how \<open>update\<close> allocates the two for a collection that is not empty.
\<close>

definition buffer_sized :: "bool \<Rightarrow> collection \<Rightarrow> bool" where
  "buffer_sized useFloat c =
     (case clippingPlanesTexture c of
        None \<Rightarrow> True
      | Some t \<Rightarrow>
          (\<exists>W H. width t = js_nat W \<and> height t = js_nat H
                 \<and> (case view_in_use useFloat c of
                       None \<Rightarrow> True
                     | Some v \<Rightarrow> length v = 4 * W * H)))"

subsection \<open>The texture's contents\<close>

text \<open>
  Modelled from the spec: \<open>Texture.copyFrom\<close>, the "GPU resource collaborator" of the
  spec with \<open>uploadRegion(data, xOffset, yOffset, width, height)\<close> and \<open>uploadFull(data)\<close>;
  the texture class is in another file of the repository. A texture's contents give the
  four components of the pixel in column \<open>px\<close> of row \<open>py\<close>. An upload of a region
  \<open>w\<close> wide and \<open>h\<close> tall reads \<open>w * h\<close> pixels from the start of the data, row by
  row, and writes them at the offset; the offsets default to 0. A new texture is taken
  to be all zeros.
\<close>

type_synonym texels = "nat \<Rightarrow> nat \<Rightarrow> jsnum list"

definition pixel_of :: "jsnum list \<Rightarrow> nat \<Rightarrow> jsnum list" where
  "pixel_of data k = take 4 (drop (4 * k) data)"

definition uploadRegion :: "texels \<Rightarrow> jsnum list \<Rightarrow> nat \<Rightarrow> nat \<Rightarrow> nat \<Rightarrow> nat \<Rightarrow> texels" where
  "uploadRegion tex data xOffset yOffset w h =
     (\<lambda>px py.
        if xOffset \<le> px \<and> px < xOffset + w \<and> yOffset \<le> py \<and> py < yOffset + h
        then pixel_of data ((py - yOffset) * w + (px - xOffset))
        else tex px py)"

fun js_to_nat :: "jsnum \<Rightarrow> nat option" where
  "js_to_nat (Fin r) = (if 0 \<le> r \<and> of_int \<lfloor>r\<rfloor> = r then Some (nat \<lfloor>r\<rfloor>) else None)"
| "js_to_nat _ = None"

fun gpu_exec :: "gpu_call \<Rightarrow> texels \<Rightarrow> texels" where
  "gpu_exec (Texture_new t) tex = (\<lambda>px py. replicate 4 (Fin 0))"
| "gpu_exec (Texture_destroy t) tex = tex"
| "gpu_exec (Texture_copyFrom t w h view xOffset yOffset) tex =
     (case (js_to_nat w, js_to_nat h, view,
            js_to_nat (defaultValue xOffset (Fin 0)), js_to_nat (defaultValue yOffset (Fin 0))) of
        (Some w', Some h', Some data, Some x', Some y') \<Rightarrow> uploadRegion tex data x' y' w' h'
      | _ \<Rightarrow> tex)"

text \<open>
  After a full upload into a texture \<open>W\<close> pixels wide, pixel number \<open>k\<close> of the data is
  in column \<open>k mod W\<close> of row \<open>k div W\<close>. Plane \<open>i\<close> is pixel \<open>i\<close> in the float layout
  and the two pixels \<open>2 * i\<close> and \<open>2 * i + 1\<close> in the byte layout.
\<close>

definition pixel_at :: "texels \<Rightarrow> nat \<Rightarrow> nat \<Rightarrow> jsnum list" where
  "pixel_at tex W k = tex (k mod W) (k div W)"

subsection \<open>A host and some planes to run the code on\<close>

text \<open>
  The concrete runs below use a host with a maximum texture size of 16384 and stand-ins
  for the library functions: value equality of normal and distance for \<open>Plane.equals\<close>,
  and encoders that keep the numbers they are given.
\<close>

definition example_env :: env where
  "example_env =
     \<lparr>maximumTextureSize = Fin 16384,
      Plane_equals = (\<lambda>a b. js_eq (distance a) (distance b)
                          \<and> js_eq (c3x (normal a)) (c3x (normal b))
                          \<and> js_eq (c3y (normal a)) (c3y (normal b))
                          \<and> js_eq (c3z (normal a)) (c3z (normal b))),
      Matrix4_multiply = (\<lambda>a b. a),
      Plane_transform = (\<lambda>p m. Plane (normal p) (distance p)),
      octEncodeToCartesian4 = (\<lambda>n. (c3x n, c3y n, c3z n, Fin 0)),
      packFloat = (\<lambda>d. (d, Fin 0, Fin 0, Fin 0)),
      toFloat32 = (\<lambda>v. v),
      toUint8 = (\<lambda>v. v)\<rparr>"

definition unit_x :: cartesian3 where
  "unit_x = Cartesian3 (Fin 1) (Fin 0) (Fin 0)"

definition unit_y :: cartesian3 where
  "unit_y = Cartesian3 (Fin 0) (Fin 1) (Fin 0)"

text \<open>
  Objects 0 and 1 are two different \<open>ClippingPlane\<close>s with the same normal and distance,
  object 2 is a \<open>ClippingPlane\<close> with other values, and every other object is a \<open>Plane\<close>.
\<close>

definition example_heap :: heap where
  "example_heap r =
     (if r = 0 then ClippingPlane unit_x (Fin 5) (-1) None
      else if r = 1 then ClippingPlane unit_x (Fin 5) (-1) None
      else if r = 2 then ClippingPlane unit_y (Fin 7) (-1) None
      else Plane unit_x (Fin 3))"

definition no_options :: options where
  "no_options = \<lparr>opt_planes = None, opt_enabled = None, opt_modelMatrix = None,
                  opt_unionClippingRegions = None\<rparr>"

definition float_frame :: frameState where
  "float_frame = \<lparr>fs_context = \<lparr>floatingPointTexture = True\<rparr>\<rparr>"

definition byte_frame :: frameState where
  "byte_frame = \<lparr>fs_context = \<lparr>floatingPointTexture = False\<rparr>\<rparr>"

definition new_world :: "heap \<times> collection \<Rightarrow> world" where
  "new_world hc = \<lparr>w_heap = fst hc, w_coll = snd hc, w_destroyed = False\<rparr>"

definition no_planes :: "heap \<times> collection" where
  "no_planes = ClippingPlaneCollection 0 no_options example_heap"

definition two_planes :: "heap \<times> collection" where
  "two_planes = ClippingPlaneCollection 0 (no_options\<lparr>opt_planes := Some [0, 2]\<rparr>) example_heap"

text \<open>The collection \<open>two_planes\<close> after its first \<open>update\<close> on a host with float textures.\<close>

definition two_planes_float :: collection where
  "two_planes_float =
     \<lparr>planes = [0, 2], containsUntrackablePlanes = False, dirtyIndex = - 1,
      multipleDirtyPlanes = False, enabled = True, modelMatrix = Matrix4_IDENTITY,
      unionClippingRegions = False, testIntersection = defaultIntersectFunction,
      uint8View = None,
      float32View =
        Some ([Fin 1, Fin 0, Fin 0, Fin 5, Fin 0, Fin 1, Fin 0, Fin 7] @ replicate 8 (Fin 0)),
      clippingPlanesTexture = Some \<lparr>width = Fin 4, height = Fin 1, pixelDatatype = FLOAT\<rparr>\<rparr>"

text \<open>
  A collection made from the untracked plane 3, the same after its first \<open>update\<close> on a
  host with float textures, and that one after \<open>add\<close> of the planes 0 and 2.
\<close>

definition one_untracked :: "heap \<times> collection" where
  "one_untracked = ClippingPlaneCollection 0 (no_options\<lparr>opt_planes := Some [3]\<rparr>) example_heap"

definition one_untracked_float :: collection where
  "one_untracked_float =
     \<lparr>planes = [3], containsUntrackablePlanes = True, dirtyIndex = - 1,
      multipleDirtyPlanes = False, enabled = True, modelMatrix = Matrix4_IDENTITY,
      unionClippingRegions = False, testIntersection = defaultIntersectFunction,
      uint8View = None,
      float32View = Some [Fin 1, Fin 0, Fin 0, Fin 3, Fin 0, Fin 0, Fin 0, Fin 0],
      clippingPlanesTexture = Some \<lparr>width = Fin 2, height = Fin 1, pixelDatatype = FLOAT\<rparr>\<rparr>"

definition three_planes :: "heap \<times> collection" where
  "three_planes = fold (add 0) [0, 2] (fst one_untracked, one_untracked_float)"

definition three_planes_float :: collection where
  "three_planes_float =
     \<lparr>planes = [3, 0, 2], containsUntrackablePlanes = True, dirtyIndex = - 1,
      multipleDirtyPlanes = False, enabled = True, modelMatrix = Matrix4_IDENTITY,
      unionClippingRegions = False, testIntersection = defaultIntersectFunction,
      uint8View = None,
      float32View =
        Some ([Fin 1, Fin 0, Fin 0, Fin 3, Fin 1, Fin 0, Fin 0, Fin 5, Fin 0, Fin 1, Fin 0, Fin 7]
              @ replicate 12 (Fin 0)),
      clippingPlanesTexture = Some \<lparr>width = Fin 6, height = Fin 1, pixelDatatype = FLOAT\<rparr>\<rparr>"

text \<open>
  A collection made from the planes 0 and 1, two objects with the same normal and
  distance.
\<close>

definition twins :: "heap \<times> collection" where
  "twins = ClippingPlaneCollection 0 (no_options\<lparr>opt_planes := Some [0, 1]\<rparr>) example_heap"

text \<open>
  The collection \<open>two_planes\<close> after its first \<open>update\<close> on a host without float
  textures, and the contents of its texture after the calls of that \<open>update\<close>.
\<close>

definition two_planes_bytes :: collection where
  "two_planes_bytes =
     \<lparr>planes = [0, 2], containsUntrackablePlanes = False, dirtyIndex = - 1,
      multipleDirtyPlanes = False, enabled = True, modelMatrix = Matrix4_IDENTITY,
      unionClippingRegions = False, testIntersection = defaultIntersectFunction,
      uint8View =
        Some ([Fin 1, Fin 0, Fin 0, Fin 0, Fin 5, Fin 0, Fin 0, Fin 0,
               Fin 0, Fin 1, Fin 0, Fin 0, Fin 7, Fin 0, Fin 0, Fin 0] @ replicate 16 (Fin 0)),
      float32View = None,
      clippingPlanesTexture =
        Some \<lparr>width = Fin 8, height = Fin 1, pixelDatatype = UNSIGNED_BYTE\<rparr>\<rparr>"

definition two_planes_bytes_texels :: texels where
  "two_planes_bytes_texels =
     fold gpu_exec
       [Texture_new \<lparr>width = Fin 8, height = Fin 1, pixelDatatype = UNSIGNED_BYTE\<rparr>,
        Texture_copyFrom \<lparr>width = Fin 8, height = Fin 1, pixelDatatype = UNSIGNED_BYTE\<rparr>
          (Fin 8) (Fin 1) (uint8View two_planes_bytes) None None]
       (\<lambda>px py. [])"


section \<open>Properties\<close>

subsection \<open>Fields that the operations leave alone\<close>

lemma setIndexDirty_fields [simp]:
  "planes (setIndexDirty c i) = planes c"
  "containsUntrackablePlanes (setIndexDirty c i) = containsUntrackablePlanes c"
  "unionClippingRegions (setIndexDirty c i) = unionClippingRegions c"
  "testIntersection (setIndexDirty c i) = testIntersection c"
  "clippingPlanesTexture (setIndexDirty c i) = clippingPlanesTexture c"
  "dirtyIndex (setIndexDirty c i) = i"
  "multipleDirtyPlanes (setIndexDirty c i) =
     (multipleDirtyPlanes c \<or> (dirtyIndex c \<noteq> -1 \<and> dirtyIndex c \<noteq> i))"
  by (simp_all add: setIndexDirty_def)

lemma add_fields:
  "testIntersection (snd (add self p hc)) = testIntersection (snd hc)"
  "unionClippingRegions (snd (add self p hc)) = unionClippingRegions (snd hc)"
  "planes (snd (add self p hc)) = planes (snd hc) @ [p]"
  "dirtyIndex (snd (add self p hc)) = int (length (planes (snd hc)))"
  by (simp_all add: add_def Let_def split: plane_obj.splits prod.splits)

lemma fold_add_mode:
  "testIntersection (snd (fold (add self) ps hc)) = testIntersection (snd hc)
   \<and> unionClippingRegions (snd (fold (add self) ps hc)) = unionClippingRegions (snd hc)"
  by (induction ps arbitrary: hc) (simp_all add: add_fields)

subsection \<open>The example collections, evaluated\<close>

lemma no_planes_coll:
  "snd no_planes =
     \<lparr>planes = [], containsUntrackablePlanes = False, dirtyIndex = -1,
      multipleDirtyPlanes = False, enabled = True, modelMatrix = Matrix4_IDENTITY,
      unionClippingRegions = False, testIntersection = defaultIntersectFunction,
      uint8View = None, float32View = None, clippingPlanesTexture = None\<rparr>"
  by (simp add: no_planes_def ClippingPlaneCollection_def no_options_def defaultValue_def)

lemma two_planes_coll:
  "snd two_planes =
     \<lparr>planes = [0, 2], containsUntrackablePlanes = False, dirtyIndex = 1,
      multipleDirtyPlanes = True, enabled = True, modelMatrix = Matrix4_IDENTITY,
      unionClippingRegions = False, testIntersection = defaultIntersectFunction,
      uint8View = None, float32View = None, clippingPlanesTexture = None\<rparr>"
  by (simp add: two_planes_def ClippingPlaneCollection_def no_options_def add_def Let_def
      example_heap_def setIndexDirty_def defaultValue_def)

lemma two_planes_heap:
  "fst two_planes =
     example_heap(0 := ClippingPlane unit_x (Fin 5) 0 (Some 0),
                  2 := ClippingPlane unit_y (Fin 7) 1 (Some 0))"
  by (simp add: two_planes_def ClippingPlaneCollection_def no_options_def add_def Let_def
      example_heap_def setIndexDirty_def defaultValue_def)

subsection \<open>The intersection classifier\<close>

lemma intersection_loop_spec_scan:
  "intersection_loop classify (if u then unionIntersectFunction else defaultIntersectFunction)
     h rs acc
   = spec_scan u (map (\<lambda>r. classify (h r)) rs) acc"
  by (induction rs arbitrary: acc) (auto simp: Let_def)

text \<open>
  The two copies of the mode agree in every collection the constructor makes, and the
  setter keeps them so; no other operation writes either.
\<close>

lemma constructor_mode_consistent:
  "mode_consistent (snd (ClippingPlaneCollection self opts h))"
  by (simp add: ClippingPlaneCollection_def mode_consistent_def Let_def
      split: option.splits prod.splits)

lemma set_unionClippingRegions_mode_consistent:
  "mode_consistent c \<Longrightarrow> mode_consistent (set_unionClippingRegions v c)"
  by (auto simp add: set_unionClippingRegions_def mode_consistent_def)

text \<open>
  Claim C8. For every plane sequence and every classification the volume gives for the
  planes, \<open>computeIntersectionWithBoundingVolume\<close> returns what the algorithm of the spec
  returns on the list of these classifications: start from INSIDE in union mode or for
  an empty set and from OUTSIDE otherwise, scan in index order, keep INTERSECTING and go
  on, return OUTSIDE (union mode) or INSIDE (intersection mode) at once, and return the
  result after the last plane.
\<close>

theorem computeIntersection_is_spec_classification:
  assumes "mode_consistent c"
  shows "computeIntersectionWithBoundingVolume e h c intersectPlane transform =
    spec_classification (unionClippingRegions c)
      (map (\<lambda>r. intersectPlane (Plane_transform e (h r)
              (case transform of
                 None \<Rightarrow> modelMatrix c
               | Some t \<Rightarrow> Matrix4_multiply e (modelMatrix c) t)))
         (planes c))"
  using assms
  unfolding computeIntersectionWithBoundingVolume_def spec_classification_def
    mode_consistent_def Let_def
  by (simp add: intersection_loop_spec_scan)

theorem computeIntersection_is_spec_classification_witness:
  "mode_consistent (snd two_planes) \<and>
   computeIntersectionWithBoundingVolume example_env (fst two_planes) (snd two_planes)
     (\<lambda>p. if distance p = Fin 5 then INTERSECTING else OUTSIDE) None = INTERSECTING"
proof -
  have m: "mode_consistent (snd two_planes)"
    by (simp add: two_planes_coll mode_consistent_def)
  show ?thesis
    using m computeIntersection_is_spec_classification [OF m, of example_env "fst two_planes"
        "\<lambda>p. if distance p = Fin 5 then INTERSECTING else OUTSIDE" None]
    by (simp add: two_planes_coll two_planes_heap spec_classification_def example_env_def
        unit_x_def unit_y_def)
qed

text \<open>
  Claim C10. An empty collection classifies every bounding volume as INSIDE, in
  intersection mode as in union mode, with or without the extra transform.
\<close>

theorem empty_collection_classifies_INSIDE:
  "planes c = [] \<Longrightarrow>
   computeIntersectionWithBoundingVolume e h c intersectPlane transform = INSIDE"
  by (simp add: computeIntersectionWithBoundingVolume_def)

theorem empty_collection_classifies_INSIDE_witness:
  "planes (snd no_planes) = [] \<and> \<not> unionClippingRegions (snd no_planes) \<and>
   computeIntersectionWithBoundingVolume example_env (fst no_planes) (snd no_planes)
     (\<lambda>p. OUTSIDE) None = INSIDE"
proof -
  have p: "planes (snd no_planes) = []" by (simp add: no_planes_coll)
  show ?thesis
    using p empty_collection_classifies_INSIDE [OF p, of example_env "fst no_planes"
        "\<lambda>p. OUTSIDE" None]
    by (simp add: no_planes_coll)
qed

lemma two_planes_resolution:
  "computeTextureResolution example_env (Fin 2) = (Fin 2, Fin 1)"
  by (simp add: computeTextureResolution_def example_env_def)

lemma replicate_16: "replicate 16 v = [v, v, v, v, v, v, v, v] @ replicate 8 v"
  by (simp add: numeral_eq_Suc)

lemma two_planes_update_float:
  "update example_env float_frame (fst two_planes) (snd two_planes) =
     Inr (two_planes_float,
          [Texture_new \<lparr>width = Fin 4, height = Fin 1, pixelDatatype = FLOAT\<rparr>,
           Texture_copyFrom \<lparr>width = Fin 4, height = Fin 1, pixelDatatype = FLOAT\<rparr>
             (Fin 4) (Fin 1) (float32View two_planes_float) None None])"
  apply (simp add: update_def update_texture_def two_planes_coll two_planes_heap float_frame_def
      useFloatTexture_def pixelsNeeded_of_def two_planes_resolution Let_def update_refresh_def
      packPlanesAsFloats_def packPlanesAsFloats_loop.simps planes_at_def example_heap_def)
  apply (simp add: example_env_def unit_x_def unit_y_def two_planes_float_def replicate_16)
  done

subsection \<open>The dirty tracker\<close>








lemma packPlanesAsFloats_fields:
  "packPlanesAsFloats e h c i n = Inr c' \<Longrightarrow> \<exists>v. c' = c\<lparr>float32View := v\<rparr>"
  by (auto simp: packPlanesAsFloats_def split: sum.splits)

lemma packPlanesAsUint8_fields:
  "packPlanesAsUint8 e h c i n = Inr c' \<Longrightarrow> \<exists>v. c' = c\<lparr>uint8View := v\<rparr>"
  by (auto simp: packPlanesAsUint8_def split: sum.splits)





subsection \<open>get\<close>

lemma get_in_range:
  "k < length (planes c) \<Longrightarrow> get c (JSNumber (js_nat k)) = Inr (Some (planes c ! k))"
  by simp

lemma get_not_a_number: "get c JSNotANumber = Inl DeveloperError"
  by simp

text \<open>
  Claim C2 says that \<open>get\<close> fails with an out-of-range error for an index that is not a
  valid position. The code checks only that the index is a Number and then reads the
  array: at index 2 or -1 of a collection of two planes it returns \<open>undefined\<close>.
\<close>

theorem get_out_of_range_counterexample:
  "get (snd two_planes) (JSNumber (Fin 2)) = Inr None \<and>
   get (snd two_planes) (JSNumber (Fin (- 1))) = Inr None \<and>
   get (snd no_planes) (JSNumber (Fin 0)) = Inr None"
  by (simp add: no_planes_coll two_planes_coll)

text \<open>
  Claim C2, amended. For every index that is not a valid position in the collection
  (negative, or greater than or equal to the collection's length), \<open>get(index)\<close>
  returns \<open>undefined\<close> rather than failing with an error. This holds of every Number
  that is negative, or not below the length (which includes \<open>NaN\<close> and \<open>Infinity\<close>), or
  not a whole number.
\<close>

theorem get_out_of_range_is_undefined:
  "js_lt x (Fin 0) \<or> \<not> js_lt x (js_nat (length (planes c))) \<or> (\<forall>k. x \<noteq> js_nat k) \<Longrightarrow>
   get c (JSNumber x) = Inr None"
proof (cases x)
  case (Fin r)
  assume a: "js_lt x (Fin 0) \<or> \<not> js_lt x (js_nat (length (planes c))) \<or> (\<forall>k. x \<noteq> js_nat k)"
  have "\<not> (of_int \<lfloor>r\<rfloor> = r \<and> 0 \<le> r \<and> r < of_nat (length (planes c)))"
  proof
    assume b: "of_int \<lfloor>r\<rfloor> = r \<and> 0 \<le> r \<and> r < of_nat (length (planes c))"
    then have "r = of_nat (nat \<lfloor>r\<rfloor>)" by (metis of_nat_nat zero_le_floor)
    then have "x = js_nat (nat \<lfloor>r\<rfloor>)" using Fin by simp
    then have "\<not> (\<forall>k. x \<noteq> js_nat k)" by blast
    moreover have "\<not> js_lt x (Fin 0)" using Fin b by simp
    moreover have "js_lt x (js_nat (length (planes c)))" using Fin b by simp
    ultimately show False using a by blast
  qed
  then show ?thesis using Fin by simp
qed simp_all

theorem get_out_of_range_is_undefined_witness:
  "(js_lt (Fin 2) (Fin 0) \<or> \<not> js_lt (Fin 2) (js_nat (length (planes (snd two_planes))))
      \<or> (\<forall>k. Fin 2 \<noteq> js_nat k))
   \<and> get (snd two_planes) (JSNumber (Fin 2)) = Inr None
   \<and> get (snd two_planes) (JSNumber (Fin (- 1))) = Inr None
   \<and> get (snd two_planes) (JSNumber NaN) = Inr None
   \<and> get (snd two_planes) (JSNumber (Fin (1 / 2))) = Inr None"
proof -
  have h: "js_lt (Fin 2) (Fin 0) \<or> \<not> js_lt (Fin 2) (js_nat (length (planes (snd two_planes))))
      \<or> (\<forall>k. Fin 2 \<noteq> js_nat k)"
    by (simp add: two_planes_coll)
  have n: "js_lt (Fin (- 1)) (Fin 0) \<or> \<not> js_lt (Fin (- 1)) (js_nat (length (planes (snd two_planes))))
      \<or> (\<forall>k. Fin (- 1) \<noteq> js_nat k)" by simp
  have m: "js_lt NaN (Fin 0) \<or> \<not> js_lt NaN (js_nat (length (planes (snd two_planes))))
      \<or> (\<forall>k. NaN \<noteq> js_nat k)" by simp
  have "real k \<noteq> 1 / 2" for k :: nat
  proof
    assume "real k = 1 / 2"
    then have "real (2 * k) = real 1" by simp
    then have "2 * k = 1" by (simp only: of_nat_eq_iff)
    then show False by presburger
  qed
  then have f: "js_lt (Fin (1 / 2)) (Fin 0) \<or> \<not> js_lt (Fin (1 / 2)) (js_nat (length (planes (snd two_planes))))
      \<or> (\<forall>k. Fin (1 / 2) \<noteq> js_nat k)" by simp
  show ?thesis
    using h get_out_of_range_is_undefined [OF h] get_out_of_range_is_undefined [OF n]
      get_out_of_range_is_undefined [OF m] get_out_of_range_is_undefined [OF f]
    by simp
qed

subsection \<open>The resolution planner\<close>

lemma ceil_ratio_pos:
  assumes "1 \<le> n" "1 \<le> k"
  shows "1 \<le> \<lceil>real n / real k\<rceil>"
proof -
  have "0 < real n / real k" using assms by simp
  then show ?thesis by linarith
qed

text \<open>
  For at least one pixel and a maximum texture size of at least 1 the planner returns
  the dimensions of the spec, \<open>width = max(min(pixelsNeeded, maxWidth), 1)\<close> and
  \<open>height = max(ceil(pixelsNeeded / width), 1)\<close>.
\<close>

lemma computeTextureResolution_positive:
  assumes "1 \<le> n" "1 \<le> m" "maximumTextureSize e = js_nat m"
  shows "computeTextureResolution e (js_nat n) =
           (js_nat (max (min n m) 1), js_int (max \<lceil>real n / real (max (min n m) 1)\<rceil> 1))"
proof -
  let ?k = "min n m"
  have k: "1 \<le> ?k" using assms by simp
  have kk: "max ?k 1 = ?k" using k by simp
  have c: "1 \<le> \<lceil>real n / real ?k\<rceil>" using ceil_ratio_pos[OF assms(1) k] .
  have w: "Math_min (js_nat n) (js_nat m) = js_nat ?k"
    by (simp add: min_def)
  have "computeTextureResolution e (js_nat n) =
          (Math_max (js_nat ?k) (Fin 1),
           Math_max (Math_ceil (js_div (js_nat n) (js_nat ?k))) (Fin 1))"
    unfolding computeTextureResolution_def Let_def assms(3) w ..
  also have "Math_max (js_nat ?k) (Fin 1) = js_nat ?k"
    using k by (simp del: of_nat_min)
  also have "js_div (js_nat n) (js_nat ?k) = Fin (real n / real ?k)"
    using k by (simp del: of_nat_min)
  also have "Math_max (Math_ceil (Fin (real n / real ?k))) (Fin 1)
               = js_int \<lceil>real n / real ?k\<rceil>"
    using c by simp
  finally have r: "computeTextureResolution e (js_nat n) =
      (js_nat ?k, js_int \<lceil>real n / real ?k\<rceil>)" .
  have m: "max \<lceil>real n / real ?k\<rceil> 1 = \<lceil>real n / real ?k\<rceil>"
    using c by (rule max_absorb1)
  show ?thesis by (simp only: kk m r)
qed

text \<open>
  Claim C5 says that for every non-negative \<open>pixelsNeeded\<close> and every \<open>maxWidth\<close> of at
  least 1 the planned width and height are integers of at least 1, also for no pixels
  at all. For \<open>pixelsNeeded = 0\<close> the code divides 0 by the width before it is raised
  to 1, that is by 0, and \<open>Math.max(NaN, 1)\<close> is \<open>NaN\<close>: the height is not a number.
\<close>

theorem computeTextureResolution_zero_pixels:
  "computeTextureResolution (e\<lparr>maximumTextureSize := js_nat (Suc m)\<rparr>) (js_nat 0)
     = (Fin 1, NaN)"
  by (simp add: computeTextureResolution_def)

text \<open>
  The first \<open>update\<close> of an empty collection gets there: it makes a texture of width 2
  and height \<open>NaN\<close>.
\<close>

lemma update_of_empty_collection:
  "update example_env float_frame (fst no_planes) (snd no_planes) =
     Inr ((snd no_planes)
            \<lparr>float32View := Some [],
             clippingPlanesTexture :=
               Some \<lparr>width = Fin 2, height = NaN, pixelDatatype = FLOAT\<rparr>\<rparr>,
          [Texture_new \<lparr>width = Fin 2, height = NaN, pixelDatatype = FLOAT\<rparr>,
           Texture_copyFrom \<lparr>width = Fin 2, height = NaN, pixelDatatype = FLOAT\<rparr>
             (Fin 2) NaN (Some []) None None])"
  by (simp add: update_def update_texture_def no_planes_coll float_frame_def
      useFloatTexture_def pixelsNeeded_of_def Let_def update_refresh_def
      computeTextureResolution_def packPlanesAsFloats_def packPlanesAsFloats_loop.simps
      planes_at_def example_env_def)

subsection \<open>The encoders\<close>

lemma length_store_slots [simp]: "length (store_slots v k xs) = length v"
  by (induction xs arbitrary: v k) simp_all

lemma nth_store_slots:
  "p < length v \<Longrightarrow>
   store_slots v k xs ! p = (if k \<le> p \<and> p < k + length xs then xs ! (p - k) else v ! p)"
proof (induction xs arbitrary: v k)
  case Nil
  then show ?case by auto
next
  case (Cons a as)
  have ih: "store_slots (v[k := a]) (k + 1) as ! p =
              (if k + 1 \<le> p \<and> p < k + 1 + length as then as ! (p - (k + 1))
               else v[k := a] ! p)"
    using Cons.IH[of "v[k := a]" "k + 1"] Cons.prems by simp
  show ?case
  proof (cases "k < p")
    case True
    then have "(a # as) ! (p - k) = as ! (p - (k + 1))"
      by (simp add: nth_Cons')
    then show ?thesis using ih True by auto
  next
    case False
    then show ?thesis using ih Cons.prems by (auto simp: nth_list_update)
  qed
qed

lemma pack_loop_generic:
  fixes L :: "jsnum list option \<Rightarrow> nat \<Rightarrow> int \<Rightarrow> error + jsnum list option"
  assumes step: "\<And>v k i. 0 \<le> i \<Longrightarrow> i < n \<Longrightarrow>
            L (Some v) k i = L (Some (store_slots v k (slots (h (ps ! nat i))))) (k + s) (i + 1)"
      and stop: "\<And>view k i. \<not> i < n \<Longrightarrow> L view k i = Inr view"
      and len: "\<And>p. length (slots p) = s"
  shows "0 \<le> i \<Longrightarrow> i \<le> n \<Longrightarrow>
         \<exists>v'. L (Some v) k i = Inr (Some v') \<and> length v' = length v
           \<and> (\<forall>p < length v. p < k \<or> k + s * nat (n - i) \<le> p \<longrightarrow> v' ! p = v ! p)
           \<and> (\<forall>j. i \<le> j \<and> j < n \<longrightarrow>
                 (\<forall>q<s. k + s * nat (j - i) + q < length v \<longrightarrow>
                    v' ! (k + s * nat (j - i) + q) = slots (h (ps ! nat j)) ! q))"
proof (induction "nat (n - i)" arbitrary: i v k)
  case 0
  then have "i = n" by simp
  then show ?case using stop[of i "Some v" k] by auto
next
  case (Suc d)
  then have lt: "i < n" and d: "d = nat (n - (i + 1))" by linarith+
  let ?v1 = "store_slots v k (slots (h (ps ! nat i)))"
  have eq: "L (Some v) k i = L (Some ?v1) (k + s) (i + 1)"
    using step[OF Suc.prems(1) lt] .
  from Suc.hyps(1)[OF d, of ?v1 "k + s"] Suc.prems lt
  obtain v' where r: "L (Some ?v1) (k + s) (i + 1) = Inr (Some v')"
    and l: "length v' = length ?v1"
    and frame: "\<forall>p < length ?v1. p < k + s \<or> k + s + s * nat (n - (i + 1)) \<le> p \<longrightarrow> v' ! p = ?v1 ! p"
    and slots: "\<forall>j. i + 1 \<le> j \<and> j < n \<longrightarrow>
                 (\<forall>q<s. k + s + s * nat (j - (i + 1)) + q < length ?v1 \<longrightarrow>
                    v' ! (k + s + s * nat (j - (i + 1)) + q) = slots (h (ps ! nat j)) ! q)"
    by auto
  have n1: "nat (n - i) = Suc (nat (n - (i + 1)))" using lt by linarith
  have f: "\<forall>p < length v. p < k \<or> k + s * nat (n - i) \<le> p \<longrightarrow> v' ! p = v ! p"
  proof (intro allI impI)
    fix p assume pl: "p < length v" and p: "p < k \<or> k + s * nat (n - i) \<le> p"
    then have "p < k + s \<or> k + s + s * nat (n - (i + 1)) \<le> p"
      unfolding n1 by auto
    then have "v' ! p = ?v1 ! p" using frame pl by auto
    also have "?v1 ! p = v ! p"
      using p unfolding nth_store_slots[OF pl] n1 len by auto
    finally show "v' ! p = v ! p" .
  qed
  have sl: "\<forall>j. i \<le> j \<and> j < n \<longrightarrow>
                 (\<forall>q<s. k + s * nat (j - i) + q < length v \<longrightarrow>
                    v' ! (k + s * nat (j - i) + q) = slots (h (ps ! nat j)) ! q)"
  proof (intro allI impI)
    fix j q assume j: "i \<le> j \<and> j < n" and q: "q < s" and b: "k + s * nat (j - i) + q < length v"
    show "v' ! (k + s * nat (j - i) + q) = slots (h (ps ! nat j)) ! q"
    proof (cases "j = i")
      case True
      then have "v' ! (k + s * nat (j - i) + q) = ?v1 ! (k + q)"
        using frame q b by auto
      also have "\<dots> = slots (h (ps ! nat i)) ! q"
        using b True q nth_store_slots[of "k + q" v k "slots (h (ps ! nat i))"] len by simp
      finally show ?thesis using True by simp
    next
      case False
      then have j1: "i + 1 \<le> j \<and> j < n" using j by simp
      have e: "nat (j - i) = Suc (nat (j - (i + 1)))" using j1 by linarith
      have "k + s + s * nat (j - (i + 1)) + q = k + s * nat (j - i) + q"
        unfolding e by simp
      then show ?thesis using slots j1 q b by (metis length_store_slots)
    qed
  qed
  show ?case using eq r l f sl by simp
qed


lemma packPlanesAsFloats_loop_step:
  assumes "0 \<le> i" "i < n" "n \<le> int (length ps)"
  shows "packPlanesAsFloats_loop e h ps (Some v) k i n =
         packPlanesAsFloats_loop e h ps
           (Some (store_slots v k (float_slots e (h (ps ! nat i))))) (k + 4) (i + 1) n"
  using assms
  by (subst packPlanesAsFloats_loop.simps)
     (simp add: planes_at_def float_slots_def Let_def eval_nat_numeral)

lemma packPlanesAsFloats_loop_stop:
  "\<not> i < n \<Longrightarrow> packPlanesAsFloats_loop e h ps view k i n = Inr view"
  by (subst packPlanesAsFloats_loop.simps) simp

lemma packPlanesAsUint8_loop_step:
  assumes "0 \<le> i" "i < n" "n \<le> int (length ps)"
  shows "packPlanesAsUint8_loop e h ps (Some v) k i n =
         packPlanesAsUint8_loop e h ps
           (Some (store_slots v k (byte_slots e (h (ps ! nat i))))) (k + 8) (i + 1) n"
  using assms
  by (subst packPlanesAsUint8_loop.simps)
     (simp add: planes_at_def byte_slots_def Let_def eval_nat_numeral split: prod.splits)

lemma packPlanesAsUint8_loop_stop:
  "\<not> i < n \<Longrightarrow> packPlanesAsUint8_loop e h ps view k i n = Inr view"
  by (subst packPlanesAsUint8_loop.simps) simp

lemma length_float_slots: "length (float_slots e p) = 4"
  by (simp add: float_slots_def)

lemma length_byte_slots: "length (byte_slots e p) = 8"
  by (simp add: byte_slots_def split: prod.splits)

lemma packPlanesAsFloats_loop_no_view:
  "packPlanesAsFloats_loop e h ps None k 0 (int (length ps)) = Inr r \<Longrightarrow> ps = [] \<and> r = None"
  by (subst (asm) packPlanesAsFloats_loop.simps) (auto simp: planes_at_def split: if_splits)

lemma packPlanesAsUint8_loop_no_view:
  "packPlanesAsUint8_loop e h ps None k 0 (int (length ps)) = Inr r \<Longrightarrow> ps = [] \<and> r = None"
  by (subst (asm) packPlanesAsUint8_loop.simps) (auto simp: planes_at_def split: if_splits)

subsection \<open>The structure of update\<close>

lemma update_texture_keep:
  "clippingPlanesTexture c = Some t \<Longrightarrow> \<not> must_recreate t (pixelsNeeded_of uf c) \<Longrightarrow>
   update_texture e uf c = Inr (c, t, [])"
  by (simp add: update_texture_def Let_def split: prod.splits)

lemma update_texture_result:
  assumes "update_texture e uf c = Inr (c1, t', calls)"
  shows "clippingPlanesTexture c1 = Some t' \<and> planes c1 = planes c
         \<and> containsUntrackablePlanes c1 = containsUntrackablePlanes c"
  using assms
  by (auto simp: update_texture_def Let_def split: prod.splits option.splits if_splits sum.splits)

lemma update_texture_recreate:
  assumes "update_texture e uf c = Inr (c1, t', calls)"
      and "clippingPlanesTexture c = Some t" and "must_recreate t (pixelsNeeded_of uf c)"
  shows "calls = [Texture_destroy t, Texture_new t'] \<and> multipleDirtyPlanes c1"
  using assms
  by (auto simp: update_texture_def Let_def split: prod.splits option.splits if_splits sum.splits)

lemma update_texture_first:
  assumes "update_texture e uf c = Inr (c1, t', calls)"
      and "clippingPlanesTexture c = None"
  shows "calls = [Texture_new t'] \<and> multipleDirtyPlanes c1"
  using assms
  by (auto simp: update_texture_def Let_def split: prod.splits option.splits if_splits sum.splits)

lemma update_texture_total:
  assumes "update e fs h c = Inr (c', calls)"
  shows "\<exists>c1 t' calls1. update_texture e (useFloatTexture (fs_context fs)) c = Inr (c1, t', calls1)"
  using assms by (auto simp: update_def Let_def split: sum.splits)

text \<open>No operation clears \<open>_containsUntrackablePlanes\<close>.\<close>

lemma update_refresh_fields:
  assumes "update_refresh e uf h c t b = Inr (c2, calls2)"
  shows "planes c2 = planes c \<and> containsUntrackablePlanes c2 = containsUntrackablePlanes c
         \<and> unionClippingRegions c2 = unionClippingRegions c
         \<and> testIntersection c2 = testIntersection c
         \<and> clippingPlanesTexture c2 = clippingPlanesTexture c
         \<and> (\<forall>t'. Texture_new t' \<notin> set calls2 \<and> Texture_destroy t' \<notin> set calls2)"
proof -
  have "\<exists>v w hh d x y. (c2 = c\<lparr>float32View := v\<rparr> \<or> c2 = c\<lparr>uint8View := v\<rparr>)
          \<and> calls2 = [Texture_copyFrom t w hh d x y]"
    using assms unfolding update_refresh_def Let_def
    by (auto split: if_splits sum.splits
        dest!: packPlanesAsFloats_fields packPlanesAsUint8_fields)
  then show ?thesis by auto
qed

lemma update_texture_fields:
  assumes "update_texture e uf c = Inr (c1, t', calls)"
  shows "unionClippingRegions c1 = unionClippingRegions c
         \<and> testIntersection c1 = testIntersection c"
  using assms
  by (auto simp: update_texture_def Let_def split: prod.splits option.splits if_splits sum.splits)

lemma update_cases:
  assumes "update e fs h c = Inr (c', calls)"
  shows "\<exists>c1 t calls1. update_texture e (useFloatTexture (fs_context fs)) c = Inr (c1, t, calls1)
          \<and> ((c' = c1 \<and> calls = calls1 \<and> \<not> multipleDirtyPlanes c1
                \<and> \<not> containsUntrackablePlanes c1 \<and> dirtyIndex c1 = -1)
              \<or> (\<exists>c2 calls2.
                    update_refresh e (useFloatTexture (fs_context fs)) h c1 t
                      (multipleDirtyPlanes c1 \<or> containsUntrackablePlanes c1) = Inr (c2, calls2)
                    \<and> c' = c2\<lparr>multipleDirtyPlanes := False, dirtyIndex := -1\<rparr>
                    \<and> calls = calls1 @ calls2))"
  using assms unfolding update_def Let_def
  by (auto split: sum.splits prod.splits if_splits)

lemma update_flag:
  assumes "update e fs h c = Inr (c', calls)"
  shows "containsUntrackablePlanes c' = containsUntrackablePlanes c" 
    and "planes c' = planes c" 
    and "unionClippingRegions c' = unionClippingRegions c"
    and "testIntersection c' = testIntersection c"
proof -
  from update_cases[OF assms] obtain c1 t calls1 where
    t: "update_texture e (useFloatTexture (fs_context fs)) c = Inr (c1, t, calls1)"
    and d: "c' = c1 \<or> (\<exists>c2 calls2.
                    update_refresh e (useFloatTexture (fs_context fs)) h c1 t
                      (multipleDirtyPlanes c1 \<or> containsUntrackablePlanes c1) = Inr (c2, calls2)
                    \<and> c' = c2\<lparr>multipleDirtyPlanes := False, dirtyIndex := -1\<rparr>)"
    by blast
  note r = update_texture_result[OF t] update_texture_fields[OF t]
  from d show "containsUntrackablePlanes c' = containsUntrackablePlanes c"
    using r update_refresh_fields by fastforce
  from d show "planes c' = planes c"
    using r update_refresh_fields by fastforce
  from d show "unionClippingRegions c' = unionClippingRegions c"
    using r update_refresh_fields by fastforce
  from d show "testIntersection c' = testIntersection c"
    using r update_refresh_fields by fastforce
qed

lemma add_flag:
  "containsUntrackablePlanes (snd hc) \<Longrightarrow> containsUntrackablePlanes (snd (add self p hc))"
  by (simp add: add_def Let_def split: plane_obj.splits prod.splits)

lemma add_untracked_sets_flag:
  "\<not> instanceof_ClippingPlane (h p) \<Longrightarrow> containsUntrackablePlanes (snd (add self p (h, c)))"
  by (cases "h p") (simp_all add: add_def Let_def)

lemma remove_flag:
  "containsUntrackablePlanes (snd (snd (remove e p hc))) = containsUntrackablePlanes (snd hc)"
  by (simp add: remove_def Let_def split: plane_obj.splits prod.splits)

lemma removeAll_flag:
  "containsUntrackablePlanes (snd (removeAll hc)) = containsUntrackablePlanes (snd hc)"
  by (simp add: removeAll_def Let_def)

lemma set_plane_flag:
  "containsUntrackablePlanes (snd (set_plane self r n d hc)) = containsUntrackablePlanes (snd hc)"
  by (simp add: set_plane_def Let_def split: plane_obj.splits prod.splits)

lemma setters_flag:
  "containsUntrackablePlanes (set_unionClippingRegions v c) = containsUntrackablePlanes c"
  "containsUntrackablePlanes (set_enabled v c) = containsUntrackablePlanes c"
  "containsUntrackablePlanes (fst (destroy c)) = containsUntrackablePlanes c"
  by (simp_all add: set_unionClippingRegions_def set_enabled_def destroy_def)

lemma step_flag:
  assumes "containsUntrackablePlanes (w_coll w)" and "step e self op w = Inr (w', calls)"
  shows "containsUntrackablePlanes (w_coll w')"
proof (cases op)
  case (Add p)
  with assms(2) have "w_coll w' = snd (add self p (w_heap w, w_coll w))"
    by (auto split: if_splits prod.splits)
  then show ?thesis using add_flag[of "(w_heap w, w_coll w)" self p] assms(1) by simp
next
  case (Remove p)
  with assms(2) have "w_coll w' = snd (snd (remove e p (w_heap w, w_coll w)))"
    by (auto split: if_splits prod.splits)
  then show ?thesis using assms(1) by (simp add: remove_flag)
next
  case RemoveAll
  with assms(2) have "w_coll w' = snd (removeAll (w_heap w, w_coll w))"
    by (auto split: if_splits prod.splits)
  then show ?thesis using assms(1) by (simp add: removeAll_flag)
next
  case (Update fs)
  with assms(2) obtain c' where "update e fs (w_heap w) (w_coll w) = Inr (c', calls)" "w_coll w' = c'"
    by (auto split: if_splits sum.splits prod.splits)
  then show ?thesis using assms(1) update_flag(1)[of e fs "w_heap w" "w_coll w" c' calls] by simp
next
  case (SetPlane r n d)
  with assms(2) have "w_coll w' = snd (set_plane self r n d (w_heap w, w_coll w))"
    by (auto split: if_splits prod.splits)
  then show ?thesis using assms(1) by (simp add: set_plane_flag)
next
  case (SetUnionClippingRegions v)
  with assms show ?thesis by (auto simp: setters_flag)
next
  case (SetEnabled v)
  with assms show ?thesis by (auto simp: setters_flag)
next
  case Destroy
  with assms(2) have "w_coll w' = fst (destroy (w_coll w))"
    by (auto split: if_splits prod.splits)
  then show ?thesis using assms(1) by (simp add: setters_flag)
qed

lemma run_flag:
  "containsUntrackablePlanes (w_coll w) \<Longrightarrow> run e self ops w = Inr (w', calls) \<Longrightarrow>
   containsUntrackablePlanes (w_coll w')"
proof (induction ops arbitrary: w calls)
  case Nil
  then show ?case by simp
next
  case (Cons op ops)
  from Cons.prems(2) obtain w1 calls1 calls2 where
    s: "step e self op w = Inr (w1, calls1)" and r: "run e self ops w1 = Inr (w', calls2)"
    by (auto split: sum.splits)
  from step_flag[OF Cons.prems(1) s] Cons.IH r show ?case by blast
qed


subsection \<open>More example runs\<close>

lemma one_untracked_eval:
  "one_untracked =
     (example_heap,
      \<lparr>planes = [3], containsUntrackablePlanes = True, dirtyIndex = 0,
      multipleDirtyPlanes = False, enabled = True, modelMatrix = Matrix4_IDENTITY,
      unionClippingRegions = False, testIntersection = defaultIntersectFunction,
      uint8View = None, float32View = None, clippingPlanesTexture = None\<rparr>)"
  by (simp add: one_untracked_def ClippingPlaneCollection_def no_options_def add_def Let_def
      example_heap_def setIndexDirty_def defaultValue_def)

lemma example_resolution:
  "computeTextureResolution example_env (Fin 1) = (Fin 1, Fin 1)"
  "computeTextureResolution example_env (Fin 3) = (Fin 3, Fin 1)"
  "computeTextureResolution example_env (Fin 4) = (Fin 4, Fin 1)"
  by (simp_all add: computeTextureResolution_def example_env_def Let_def)

lemma replicate_8: "replicate 8 v = [v, v, v, v, v, v, v, v]"
  by (simp add: numeral_eq_Suc)

lemma replicate_24: "replicate 24 v = [v, v, v, v, v, v, v, v, v, v, v, v] @ replicate 12 v"
  by (simp add: numeral_eq_Suc)

lemma one_untracked_update_float:
  "update example_env float_frame (fst one_untracked) (snd one_untracked) =
     Inr (one_untracked_float,
          [Texture_new \<lparr>width = Fin 2, height = Fin 1, pixelDatatype = FLOAT\<rparr>,
           Texture_copyFrom \<lparr>width = Fin 2, height = Fin 1, pixelDatatype = FLOAT\<rparr>
             (Fin 2) (Fin 1) (float32View one_untracked_float) None None])"
  apply (simp add: update_def update_texture_def one_untracked_eval float_frame_def
      useFloatTexture_def pixelsNeeded_of_def example_resolution Let_def update_refresh_def
      packPlanesAsFloats_def packPlanesAsFloats_loop.simps planes_at_def example_heap_def)
  apply (simp add: example_env_def unit_x_def one_untracked_float_def replicate_8)
  done

lemma one_untracked_update_again:
  "update example_env float_frame (fst one_untracked) one_untracked_float =
     Inr (one_untracked_float,
          [Texture_copyFrom \<lparr>width = Fin 2, height = Fin 1, pixelDatatype = FLOAT\<rparr>
             (Fin 2) (Fin 1) (float32View one_untracked_float) None None])"
  apply (simp add: update_def update_texture_def one_untracked_eval float_frame_def
      useFloatTexture_def pixelsNeeded_of_def example_resolution Let_def update_refresh_def
      must_recreate_def one_untracked_float_def
      packPlanesAsFloats_def packPlanesAsFloats_loop.simps planes_at_def example_heap_def)
  apply (simp add: example_env_def unit_x_def)
  done

lemma three_planes_eval:
  "three_planes =
     (example_heap(0 := ClippingPlane unit_x (Fin 5) 1 (Some 0),
                   2 := ClippingPlane unit_y (Fin 7) 2 (Some 0)),
      one_untracked_float\<lparr>planes := [3, 0, 2], dirtyIndex := 2, multipleDirtyPlanes := True\<rparr>)"
  by (simp add: three_planes_def one_untracked_eval one_untracked_float_def add_def Let_def
      example_heap_def setIndexDirty_def)

lemma three_planes_update_float:
  "update example_env float_frame (fst three_planes) (snd three_planes) =
     Inr (three_planes_float,
          [Texture_destroy \<lparr>width = Fin 2, height = Fin 1, pixelDatatype = FLOAT\<rparr>,
           Texture_new \<lparr>width = Fin 6, height = Fin 1, pixelDatatype = FLOAT\<rparr>,
           Texture_copyFrom \<lparr>width = Fin 6, height = Fin 1, pixelDatatype = FLOAT\<rparr>
             (Fin 6) (Fin 1) (float32View three_planes_float) None None])"
  apply (simp add: update_def update_texture_def three_planes_eval float_frame_def
      useFloatTexture_def pixelsNeeded_of_def example_resolution Let_def update_refresh_def
      must_recreate_def one_untracked_float_def
      packPlanesAsFloats_def packPlanesAsFloats_loop.simps planes_at_def example_heap_def)
  apply (simp add: example_env_def unit_x_def unit_y_def three_planes_float_def replicate_24)
  done

lemma remove_then_removeAll:
  "run example_env 0 [Remove 3, RemoveAll] (new_world one_untracked) =
     Inr (new_world (example_heap,
            (snd one_untracked)\<lparr>multipleDirtyPlanes := True, planes := []\<rparr>), [])"
  by (simp add: new_world_def one_untracked_eval remove_def removeAll_def indexOf_def Let_def
      example_env_def example_heap_def shift_loop.simps)

subsection \<open>Updating twice\<close>

text \<open>A texture that \<open>update\<close> has just made is neither too small nor too large.\<close>

lemma pixelsNeeded_of_nat:
  "pixelsNeeded_of uf c = js_nat (if uf then length (planes c) else 2 * length (planes c))"
  by (simp add: pixelsNeeded_of_def)

lemma fresh_texture_fits:
  assumes m: "maximumTextureSize e = js_nat m" "1 \<le> m"
  shows "\<not> must_recreate
            \<lparr>width = js_mul (fst (computeTextureResolution e (js_nat n))) (Fin 2),
             height = snd (computeTextureResolution e (js_nat n)), pixelDatatype = d\<rparr>
            (js_nat n)"
proof (cases "n = 0")
  case True
  have "computeTextureResolution e (js_nat 0) = (Fin 1, NaN)"
    using m by (simp add: computeTextureResolution_def)
  then show ?thesis using True by (simp add: must_recreate_def)
next
  case False
  then have n: "1 \<le> n" by simp
  define k where "k = min n m"
  define c where "c = \<lceil>real n / real k\<rceil>"
  have k: "1 \<le> k" "k \<le> n" using n m(2) by (simp_all add: k_def)
  have kpos: "0 < real k" using k by simp
  have c1: "1 \<le> c" unfolding c_def using ceil_ratio_pos[OF n k(1)] .
  have mk: "max (min n m) 1 = k" using k by (simp add: k_def)
  have mc: "max \<lceil>real n / real k\<rceil> 1 = c" using c1 by (simp add: c_def)
  have r: "computeTextureResolution e (js_nat n) = (js_nat k, js_int c)"
    using computeTextureResolution_positive[OF n m(2) m(1)] by (simp only: mk mc)
  have lo: "real n / real k \<le> of_int c" unfolding c_def by (rule le_of_int_ceiling)
  have hi: "of_int c < real n / real k + 1" unfolding c_def by linarith
  have a: "real n \<le> real k * of_int c"
    using lo kpos by (simp add: pos_divide_le_eq mult.commute)
  have "real k * of_int c < real k * (real n / real k + 1)"
    using hi kpos by (simp only: mult_less_cancel_left_pos)
  also have "\<dots> = real n + real k" using kpos by (simp add: distrib_left)
  finally have b: "real k * of_int c < real n + real k" .
  have kn: "real k \<le> real n" using k by simp
  have pos: "0 \<le> real k * of_int c" using kpos c1 by simp
  have "\<not> (real k * 2 * of_int c < real n)" using a pos by linarith
  moreover have "0.25 * (real k * 2 * of_int c) = real k * of_int c / 2" by simp
  then have "\<not> (real n < 0.25 * (real k * 2 * of_int c))" using b kn by linarith
  ultimately show ?thesis by (simp add: must_recreate_def r)
qed

lemma update_texture_fits:
  assumes m: "maximumTextureSize e = js_nat m" "1 \<le> m"
      and u: "update_texture e uf c = Inr (c0, t, calls0)"
  shows "\<not> must_recreate t (pixelsNeeded_of uf c)"
proof -
  obtain n where N: "pixelsNeeded_of uf c = js_nat n"
    using pixelsNeeded_of_nat by blast
  let ?r = "computeTextureResolution e (js_nat n)"
  have "(clippingPlanesTexture c = Some t \<and> \<not> must_recreate t (js_nat n))
        \<or> t = \<lparr>width = js_mul (fst ?r) (Fin 2), height = snd ?r,
                pixelDatatype = (if uf then FLOAT else UNSIGNED_BYTE)\<rparr>"
    using u unfolding update_texture_def Let_def N
    by (auto split: prod.splits option.splits if_splits sum.splits)
  then show ?thesis
    using fresh_texture_fits[OF m, of n] unfolding N by blast
qed

text \<open>
  Claim C9 says that for every collection the second of two \<open>update\<close> calls in
  succession does no encoding and no upload. A collection that holds an untracked
  plane refreshes the whole texture on every \<open>update\<close>: here the second call uploads
  again.
\<close>

theorem second_update_uploads_again_counterexample:
  "update example_env float_frame (fst one_untracked) (snd one_untracked) =
     Inr (one_untracked_float,
          [Texture_new \<lparr>width = Fin 2, height = Fin 1, pixelDatatype = FLOAT\<rparr>,
           Texture_copyFrom \<lparr>width = Fin 2, height = Fin 1, pixelDatatype = FLOAT\<rparr>
             (Fin 2) (Fin 1) (float32View one_untracked_float) None None])
   \<and> update example_env float_frame (fst one_untracked) one_untracked_float =
     Inr (one_untracked_float,
          [Texture_copyFrom \<lparr>width = Fin 2, height = Fin 1, pixelDatatype = FLOAT\<rparr>
             (Fin 2) (Fin 1) (float32View one_untracked_float) None None])"
  using one_untracked_update_float one_untracked_update_again by simp


text \<open>
  Claim C9, amended. For every collection that was never given an untracked plane, on a
  host whose maximum texture size is at least 1: when \<open>update\<close> has returned, the dirty
  state is clean, and a second \<open>update\<close> with no mutation in between returns without
  encoding, without an upload and without changing the collection.
\<close>

theorem second_update_does_nothing:
  assumes "\<not> containsUntrackablePlanes c"
      and m: "maximumTextureSize e = js_nat m" "1 \<le> m"
      and u: "update e fs h c = Inr (c1, calls1)"
  shows "dirty_state_of c1 = Clean \<and> update e fs h c1 = Inr (c1, [])"
proof -
  let ?uf = "useFloatTexture (fs_context fs)"
  from update_cases[OF u] obtain c0 t calls0 where
    t: "update_texture e ?uf c = Inr (c0, t, calls0)"
    and d: "(c1 = c0 \<and> \<not> multipleDirtyPlanes c0 \<and> dirtyIndex c0 = -1)
            \<or> (\<exists>c2 calls2. update_refresh e ?uf h c0 t
                      (multipleDirtyPlanes c0 \<or> containsUntrackablePlanes c0) = Inr (c2, calls2)
                    \<and> c1 = c2\<lparr>multipleDirtyPlanes := False, dirtyIndex := -1\<rparr>)"
    by blast
  have tex: "clippingPlanesTexture c1 = Some t"
    using d update_texture_result[OF t] update_refresh_fields by fastforce
  have clean: "\<not> multipleDirtyPlanes c1" "dirtyIndex c1 = -1"
    using d by auto
  have ps: "planes c1 = planes c" and fl: "\<not> containsUntrackablePlanes c1"
    using update_flag[OF u] assms(1) by simp_all
  have "pixelsNeeded_of ?uf c1 = pixelsNeeded_of ?uf c"
    by (simp add: pixelsNeeded_of_def ps)
  then have "\<not> must_recreate t (pixelsNeeded_of ?uf c1)"
    using update_texture_fits[OF m t] by simp
  then have "update_texture e ?uf c1 = Inr (c1, t, [])"
    using update_texture_keep[OF tex] by simp
  then have "update e fs h c1 = Inr (c1, [])"
    using clean fl by (simp add: update_def)
  moreover have "dirty_state_of c1 = Clean" using clean by (simp add: dirty_state_of_def)
  ultimately show ?thesis by simp
qed


theorem second_update_does_nothing_witness:
  "\<not> containsUntrackablePlanes (snd two_planes)
   \<and> maximumTextureSize example_env = js_nat 16384
   \<and> update example_env float_frame (fst two_planes) (snd two_planes) =
     Inr (two_planes_float,
          [Texture_new \<lparr>width = Fin 4, height = Fin 1, pixelDatatype = FLOAT\<rparr>,
           Texture_copyFrom \<lparr>width = Fin 4, height = Fin 1, pixelDatatype = FLOAT\<rparr>
             (Fin 4) (Fin 1) (float32View two_planes_float) None None])
   \<and> dirty_state_of two_planes_float = Clean
   \<and> update example_env float_frame (fst two_planes) two_planes_float = Inr (two_planes_float, [])"
proof -
  have a: "\<not> containsUntrackablePlanes (snd two_planes)" by (simp add: two_planes_coll)
  have b: "maximumTextureSize example_env = js_nat 16384" by (simp add: example_env_def)
  have c: "(1::nat) \<le> 16384" by simp
  show ?thesis
    using a b two_planes_update_float second_update_does_nothing [OF a b c two_planes_update_float]
    by simp
qed

subsection \<open>remove\<close>

text \<open>
  When no member is value-equal to the argument, \<open>remove\<close> returns false and changes
  nothing.
\<close>

lemma remove_not_found:
  "indexOf e h (planes c) p = -1 \<Longrightarrow> remove e p (h, c) = (False, h, c)"
  by (simp add: remove_def)

lemma indexOf_loop_not_found:
  "0 \<le> i \<Longrightarrow> (indexOf_loop eq h ps p i = -1) = (\<forall>r \<in> set ps. \<not> eq (h r) p)"
  by (induction ps arbitrary: i) auto

lemma indexOf_loop_found:
  "0 \<le> i \<Longrightarrow> indexOf_loop eq h ps p i \<noteq> -1 \<Longrightarrow>
   \<exists>k < length ps. indexOf_loop eq h ps p i = i + int k \<and> eq (h (ps ! k)) p
      \<and> (\<forall>j < k. \<not> eq (h (ps ! j)) p)"
proof (induction ps arbitrary: i)
  case Nil
  then show ?case by simp
next
  case (Cons r rs)
  show ?case
  proof (cases "eq (h r) p")
    case True
    then show ?thesis by (intro exI[of _ 0]) simp
  next
    case False
    with Cons.prems have "indexOf_loop eq h rs p (i + 1) \<noteq> -1" by simp
    from Cons.IH[OF _ this] Cons.prems(1)
    obtain k where k: "k < length rs" "indexOf_loop eq h rs p (i + 1) = i + 1 + int k"
      "eq (h (rs ! k)) p" "\<forall>j < k. \<not> eq (h (rs ! j)) p" by auto
    show ?thesis
    proof (intro exI[of _ "Suc k"] conjI allI impI)
      show "Suc k < length (r # rs)" using k(1) by simp
      show "indexOf_loop eq h (r # rs) p i = i + int (Suc k)" using False k(2) by simp
      show "eq (h ((r # rs) ! Suc k)) p" using k(3) by simp
      fix j assume "j < Suc k"
      then show "\<not> eq (h ((r # rs) ! j)) p" using False k(4) by (cases j) auto
    qed
  qed
qed

lemma shift_loop_planes:
  "i \<le> len \<Longrightarrow> length ps = Suc len \<Longrightarrow>
   take len (snd (shift_loop h ps i len)) = take i ps @ drop (Suc i) ps"
proof (induction "len - i" arbitrary: h ps i)
  case 0
  then have "i = len" by simp
  then show ?case using "0.prems" by (simp add: shift_loop.simps)
next
  case (Suc d)
  then have lt: "i < len" by simp
  let ?ps1 = "ps[i := ps ! (i + 1)]"
  have d: "d = len - Suc i" using Suc.hyps(2) by simp
  have l1: "length ?ps1 = Suc len" using Suc.prems by simp
  have "take len (snd (shift_loop h ps i len)) =
        take (Suc i) ?ps1 @ drop (Suc (Suc i)) ?ps1"
    using lt Suc.hyps(1)[OF d _ l1] 
    by (subst shift_loop.simps) (simp add: Let_def split: plane_obj.splits)
  also have "take (Suc i) ?ps1 = take i ps @ [ps ! (i + 1)]"
    using lt Suc.prems by (simp add: take_Suc_conv_app_nth)
  also have "drop (Suc (Suc i)) ?ps1 = drop (Suc (Suc i)) ps" by simp
  also have "(take i ps @ [ps ! (i + 1)]) @ drop (Suc (Suc i)) ps = take i ps @ drop (Suc i) ps"
    using lt Suc.prems by (simp add: Cons_nth_drop_Suc)
  finally show ?case .
qed

text \<open>
  When a member is value-equal to the argument, \<open>remove\<close> returns true, takes the first
  such member out of the sequence and marks the collection multiple-dirty.
\<close>

lemma remove_found:
  assumes "indexOf e h (planes c) p \<noteq> -1"
  shows "\<exists>k < length (planes c).
           indexOf e h (planes c) p = int k
           \<and> Plane_equals e (h (planes c ! k)) (h p)
           \<and> (\<forall>j < k. \<not> Plane_equals e (h (planes c ! j)) (h p))
           \<and> fst (remove e p (h, c)) = True
           \<and> planes (snd (snd (remove e p (h, c)))) = take k (planes c) @ drop (Suc k) (planes c)
           \<and> multipleDirtyPlanes (snd (snd (remove e p (h, c))))"
proof -
  from indexOf_loop_found[of 0 "Plane_equals e" h "planes c" "h p"] assms
  obtain k where k: "k < length (planes c)" "indexOf e h (planes c) p = int k"
    "Plane_equals e (h (planes c ! k)) (h p)"
    "\<forall>j < k. \<not> Plane_equals e (h (planes c ! j)) (h p)"
    by (auto simp: indexOf_def)
  let ?len = "length (planes c) - 1"
  have l: "length (planes c) = Suc ?len" "k \<le> ?len" using k(1) by simp_all
  have "take ?len (snd (shift_loop h' (planes c) k ?len)) = take k (planes c) @ drop (Suc k) (planes c)" for h'
    using shift_loop_planes[OF l(2) l(1)] .
  then show ?thesis
    using k by (auto simp: remove_def Let_def split_beta)
qed

lemma twins_eval:
  "twins =
     (example_heap(0 := ClippingPlane unit_x (Fin 5) 0 (Some 0),
                   1 := ClippingPlane unit_x (Fin 5) 1 (Some 0)),
     \<lparr>planes = [0, 1], containsUntrackablePlanes = False, dirtyIndex = 1,
      multipleDirtyPlanes = True, enabled = True, modelMatrix = Matrix4_IDENTITY,
      unionClippingRegions = False, testIntersection = defaultIntersectFunction,
      uint8View = None, float32View = None, clippingPlanesTexture = None\<rparr>)"
  by (simp add: twins_def ClippingPlaneCollection_def no_options_def add_def Let_def
      example_heap_def setIndexDirty_def defaultValue_def)

text \<open>
  Claim C3 says that \<open>remove(p)\<close> detaches the first member found value-equal to \<open>p\<close>,
  clearing that member's index and callback. The code clears the index and the
  callback of the argument \<open>p\<close> instead. In a collection of the two equal planes 0 and 1,
  \<open>remove\<close> of plane 1 finds plane 0 and takes it out of the sequence, but plane 0 keeps
  its index 0 and its callback into the collection, while plane 1, which stays in the
  collection at index 0, has lost its callback.
\<close>

theorem remove_unlinks_the_argument_not_the_member:
  "remove example_env 1 twins =
     (True,
      example_heap(0 := ClippingPlane unit_x (Fin 5) 0 (Some 0),
                   1 := ClippingPlane unit_x (Fin 5) 0 None),
      (snd twins)\<lparr>multipleDirtyPlanes := True, planes := [1]\<rparr>)"
  by (simp add: twins_eval remove_def indexOf_def Let_def example_env_def unit_x_def
      shift_loop.simps)


subsection \<open>The partial update\<close>

lemma two_planes_bytes_update:
  "update example_env byte_frame (fst two_planes) (snd two_planes) =
     Inr (two_planes_bytes,
       [Texture_new \<lparr>width = Fin 8, height = Fin 1, pixelDatatype = UNSIGNED_BYTE\<rparr>,
        Texture_copyFrom \<lparr>width = Fin 8, height = Fin 1, pixelDatatype = UNSIGNED_BYTE\<rparr>
          (Fin 8) (Fin 1) (uint8View two_planes_bytes) None None])"
  apply (simp add: update_def update_texture_def two_planes_coll two_planes_heap byte_frame_def
      useFloatTexture_def pixelsNeeded_of_def example_resolution Let_def update_refresh_def
      packPlanesAsUint8_def packPlanesAsUint8_loop.simps planes_at_def example_heap_def)
  apply (simp add: example_env_def unit_x_def unit_y_def two_planes_bytes_def numeral_eq_Suc)
  done

lemma two_planes_bytes_changed:
  "set_plane 0 2 unit_y (Fin 9) (fst two_planes, two_planes_bytes) =
     ((fst two_planes)(2 := ClippingPlane unit_y (Fin 9) 1 (Some 0)),
      two_planes_bytes\<lparr>dirtyIndex := 1\<rparr>)"
  by (simp add: set_plane_def two_planes_heap two_planes_bytes_def setIndexDirty_def)

lemma two_planes_bytes_partial:
  "update example_env byte_frame
     ((fst two_planes)(2 := ClippingPlane unit_y (Fin 9) 1 (Some 0)))
     (two_planes_bytes\<lparr>dirtyIndex := 1\<rparr>) =
   Inr (two_planes_bytes
          \<lparr>uint8View :=
             Some ([Fin 0, Fin 1, Fin 0, Fin 0, Fin 9, Fin 0, Fin 0, Fin 0,
                    Fin 0, Fin 1, Fin 0, Fin 0, Fin 7, Fin 0, Fin 0, Fin 0]
                   @ replicate 16 (Fin 0))\<rparr>,
        [Texture_copyFrom \<lparr>width = Fin 8, height = Fin 1, pixelDatatype = UNSIGNED_BYTE\<rparr>
           (Fin 2) (Fin 1)
           (Some ([Fin 0, Fin 1, Fin 0, Fin 0, Fin 9, Fin 0, Fin 0, Fin 0,
                   Fin 0, Fin 1, Fin 0, Fin 0, Fin 7, Fin 0, Fin 0, Fin 0]
                  @ replicate 16 (Fin 0)))
           (Some (Fin 1)) (Some (Fin 0))])"
  apply (simp add: update_def update_texture_def two_planes_heap byte_frame_def
      useFloatTexture_def pixelsNeeded_of_def example_resolution Let_def update_refresh_def
      must_recreate_def two_planes_bytes_def
      packPlanesAsUint8_def packPlanesAsUint8_loop.simps planes_at_def example_heap_def)
  apply (simp add: example_env_def unit_x_def unit_y_def)
  done

lemma texels_before:
  "map (pixel_at two_planes_bytes_texels 8) [0, 1, 2, 3] =
     [[Fin 1, Fin 0, Fin 0, Fin 0], [Fin 5, Fin 0, Fin 0, Fin 0],
      [Fin 0, Fin 1, Fin 0, Fin 0], [Fin 7, Fin 0, Fin 0, Fin 0]]"
  by (simp add: two_planes_bytes_texels_def two_planes_bytes_def pixel_at_def uploadRegion_def
      pixel_of_def defaultValue_def)

lemma texels_after:
  "map (pixel_at
          (gpu_exec
             (Texture_copyFrom \<lparr>width = Fin 8, height = Fin 1, pixelDatatype = UNSIGNED_BYTE\<rparr>
               (Fin 2) (Fin 1)
               (Some ([Fin 0, Fin 1, Fin 0, Fin 0, Fin 9, Fin 0, Fin 0, Fin 0,
                       Fin 0, Fin 1, Fin 0, Fin 0, Fin 7, Fin 0, Fin 0, Fin 0]
                      @ replicate 16 (Fin 0)))
               (Some (Fin 1)) (Some (Fin 0)))
             two_planes_bytes_texels) 8) [0, 1, 2, 3] =
     [[Fin 1, Fin 0, Fin 0, Fin 0], [Fin 0, Fin 1, Fin 0, Fin 0],
      [Fin 9, Fin 0, Fin 0, Fin 0], [Fin 7, Fin 0, Fin 0, Fin 0]]"
  by (simp add: two_planes_bytes_texels_def two_planes_bytes_def pixel_at_def uploadRegion_def
      pixel_of_def defaultValue_def)

lemma floor_offsets:
  assumes "0 < W"
  shows "Math_floor (js_div (js_int (int i)) (js_nat W)) = js_nat (i div W)"
    and "Math_floor (js_sub (js_int (int i)) (js_mul (js_nat (i div W)) (js_nat W)))
           = js_nat (i mod W)"
proof -
  have "\<lfloor>real i / real W\<rfloor> = int (i div W)"
    by (metis floor_divide_of_nat_eq of_int_of_nat_eq)
  then show "Math_floor (js_div (js_int (int i)) (js_nat W)) = js_nat (i div W)"
    using assms by simp
  have "real i - real (i div W) * real W = real (i mod W)"
    by (metis add_diff_cancel_left' mult.commute mult_div_mod_eq of_nat_add of_nat_mult)
  then show "Math_floor (js_sub (js_int (int i)) (js_mul (js_nat (i div W)) (js_nat W)))
           = js_nat (i mod W)"
    by simp
qed

lemma packPlanesAsFloats_one:
  assumes "packPlanesAsFloats e h c (int i) (int i + 1) = Inr c1"
  shows "i < length (planes c) \<and>
         (\<exists>v. float32View c = Some v \<and>
              c1 = c\<lparr>float32View := Some (store_slots v 0 (float_slots e (h (planes c ! i))))\<rparr>)"
proof -
  have lt: "i < length (planes c)"
    using assms unfolding packPlanesAsFloats_def
    by (subst (asm) packPlanesAsFloats_loop.simps)
       (auto simp: planes_at_def split: if_splits sum.splits)
  obtain v where v: "float32View c = Some v"
    using assms lt unfolding packPlanesAsFloats_def
    by (subst (asm) packPlanesAsFloats_loop.simps)
       (auto simp: planes_at_def split: if_splits sum.splits option.splits)
  have "packPlanesAsFloats_loop e h (planes c) (Some v) 0 (int i) (int i + 1) =
        Inr (Some (store_slots v 0 (float_slots e (h (planes c ! i)))))"
    using lt packPlanesAsFloats_loop_step[of "int i" "int i + 1" "planes c" e h v 0]
    by (simp add: packPlanesAsFloats_loop_stop)
  then show ?thesis using assms lt v by (auto simp: packPlanesAsFloats_def)
qed

lemma packPlanesAsUint8_one:
  assumes "packPlanesAsUint8 e h c (int i) (int i + 1) = Inr c1"
  shows "i < length (planes c) \<and>
         (\<exists>v. uint8View c = Some v \<and>
              c1 = c\<lparr>uint8View := Some (store_slots v 0 (byte_slots e (h (planes c ! i))))\<rparr>)"
proof -
  have lt: "i < length (planes c)"
    using assms unfolding packPlanesAsUint8_def
    by (subst (asm) packPlanesAsUint8_loop.simps)
       (auto simp: planes_at_def split: if_splits sum.splits)
  obtain v where v: "uint8View c = Some v"
    using assms lt unfolding packPlanesAsUint8_def
    by (subst (asm) packPlanesAsUint8_loop.simps)
       (auto simp: planes_at_def split: if_splits sum.splits option.splits)
  have "packPlanesAsUint8_loop e h (planes c) (Some v) 0 (int i) (int i + 1) =
        Inr (Some (store_slots v 0 (byte_slots e (h (planes c ! i)))))"
    using lt packPlanesAsUint8_loop_step[of "int i" "int i + 1" "planes c" e h v 0]
    by (simp add: packPlanesAsUint8_loop_stop)
  then show ?thesis using assms lt v by (auto simp: packPlanesAsUint8_def)
qed

lemma same_pixel:
  assumes "0 < (W::nat)"
  shows "(k mod W = i mod W \<and> k div W = i div W) = (k = i)"
  by (metis div_mult_mod_eq)

lemma next_pixel:
  assumes "0 < (W::nat)"
  shows "(k mod W = i mod W + 1 \<and> k div W = i div W) = (k = i + 1 \<and> i mod W + 1 < W)"
proof
  assume a: "k mod W = i mod W + 1 \<and> k div W = i div W"
  have "k = k div W * W + k mod W" by simp
  also have "\<dots> = i div W * W + i mod W + 1" using a by simp
  also have "\<dots> = i + 1" by simp
  finally have "k = i + 1" .
  moreover have "i mod W + 1 < W" using a assms by (metis mod_less_divisor)
  ultimately show "k = i + 1 \<and> i mod W + 1 < W" by simp
next
  assume a: "k = i + 1 \<and> i mod W + 1 < W"
  then have "(i + 1) mod W = i mod W + 1"
    by (metis mod_add_left_eq mod_less)
  moreover have "(i + 1) div W = i div W"
    using a by (metis add.commute add_diff_cancel_left' calculation div_mult_mod_eq
        mult_cancel2 add.assoc add_left_cancel less_numeral_extra(3) assms mult.commute)
  ultimately show "k mod W = i mod W + 1 \<and> k div W = i div W" using a by simp
qed

lemma js_to_nat_nat [simp]: "js_to_nat (js_nat n) = Some n"
  by simp

text \<open>
  The partial branch of \<open>update\<close>: it is taken in the dirty state single with no
  untracked plane and a texture that is kept.
\<close>

lemma update_partial:
  assumes s: "dirty_state_of c = Single (int i)" "\<not> containsUntrackablePlanes c"
      and t: "clippingPlanesTexture c = Some t"
             "\<not> must_recreate t (pixelsNeeded_of (useFloatTexture (fs_context fs)) c)"
             "width t = js_nat W" "0 < W"
      and u: "update e fs h c = Inr (c', calls)"
  shows "i < length (planes c) \<and>
         (if useFloatTexture (fs_context fs)
          then \<exists>v. float32View c = Some v
                 \<and> c' = c\<lparr>float32View := Some (store_slots v 0 (float_slots e (h (planes c ! i)))),
                          multipleDirtyPlanes := False, dirtyIndex := -1\<rparr>
                 \<and> calls = [Texture_copyFrom t (Fin 1) (Fin 1)
                              (Some (store_slots v 0 (float_slots e (h (planes c ! i)))))
                              (Some (js_nat (i mod W))) (Some (js_nat (i div W)))]
          else \<exists>v. uint8View c = Some v
                 \<and> c' = c\<lparr>uint8View := Some (store_slots v 0 (byte_slots e (h (planes c ! i)))),
                          multipleDirtyPlanes := False, dirtyIndex := -1\<rparr>
                 \<and> calls = [Texture_copyFrom t (Fin 2) (Fin 1)
                              (Some (store_slots v 0 (byte_slots e (h (planes c ! i)))))
                              (Some (js_nat (i mod W))) (Some (js_nat (i div W)))])"
proof -
  let ?uf = "useFloatTexture (fs_context fs)"
  have d: "\<not> multipleDirtyPlanes c" "dirtyIndex c = int i"
    using s(1) by (auto simp: dirty_state_of_def split: if_splits)
  have ut: "update_texture e ?uf c = Inr (c, t, [])"
    using update_texture_keep[OF t(1) t(2)] .
  have r: "\<exists>c2 calls2. update_refresh e ?uf h c t False = Inr (c2, calls2)
            \<and> c' = c2\<lparr>multipleDirtyPlanes := False, dirtyIndex := -1\<rparr> \<and> calls = calls2"
    using u d s(2) unfolding update_def Let_def ut
    by (auto split: sum.splits prod.splits)
  then obtain c2 where c2: "update_refresh e ?uf h c t False = Inr (c2, calls)"
    "c' = c2\<lparr>multipleDirtyPlanes := False, dirtyIndex := -1\<rparr>" by blast
  note fo = floor_offsets[OF t(4), of i]
  show ?thesis
  proof (cases ?uf)
    case True
    from c2(1) True obtain c1 where
      p: "packPlanesAsFloats e h c (int i) (int i + 1) = Inr c1" and
      q: "c2 = c1" "calls = [Texture_copyFrom t (Fin 1) (Fin 1) (float32View c1)
              (Some (js_nat (i mod W))) (Some (js_nat (i div W)))]"
      unfolding update_refresh_def Let_def d(2) t(3) fo
      by (auto split: sum.splits)
    from packPlanesAsFloats_one[OF p] q c2(2) True show ?thesis by auto
  next
    case False
    from c2(1) False obtain c1 where
      p: "packPlanesAsUint8 e h c (int i) (int i + 1) = Inr c1" and
      q: "c2 = c1" "calls = [Texture_copyFrom t (Fin 2) (Fin 1) (uint8View c1)
              (Some (js_nat (i mod W))) (Some (js_nat (i div W)))]"
      unfolding update_refresh_def Let_def d(2) t(3) fo
      by (auto split: sum.splits)
    from packPlanesAsUint8_one[OF p] q c2(2) False show ?thesis by auto
  qed
qed

text \<open>What the two partial uploads write into a texture \<open>W\<close> pixels wide.\<close>

lemma partial_upload_float_texels:
  assumes "0 < W"
  shows "pixel_at (gpu_exec (Texture_copyFrom t (Fin 1) (Fin 1) (Some v)
                     (Some (js_nat (i mod W))) (Some (js_nat (i div W)))) tex) W k
         = (if k = i then pixel_of v 0 else pixel_at tex W k)"
proof -
  have "(i mod W \<le> k mod W \<and> k mod W < i mod W + 1 \<and> i div W \<le> k div W \<and> k div W < i div W + 1)
        = (k = i)"
    using same_pixel[OF assms, of k i] by auto
  then show ?thesis
    by (simp add: pixel_at_def uploadRegion_def defaultValue_def)
qed

lemma partial_upload_byte_texels:
  assumes "0 < W"
  shows "pixel_at (gpu_exec (Texture_copyFrom t (Fin 2) (Fin 1) (Some v)
                     (Some (js_nat (i mod W))) (Some (js_nat (i div W)))) tex) W k
         = (if k = i then pixel_of v 0
            else if k = i + 1 \<and> i mod W + 1 < W then pixel_of v 1
            else pixel_at tex W k)"
proof -
  let ?in = "i mod W \<le> k mod W \<and> k mod W < i mod W + 2 \<and> i div W \<le> k div W \<and> k div W < i div W + 1"
  have r: "?in = (k = i \<or> (k = i + 1 \<and> i mod W + 1 < W))"
    using same_pixel[OF assms, of k i] next_pixel[OF assms, of k i] by auto
  have e: "pixel_at (gpu_exec (Texture_copyFrom t (Fin 2) (Fin 1) (Some v)
                     (Some (js_nat (i mod W))) (Some (js_nat (i div W)))) tex) W k
         = (if ?in then pixel_of v ((k div W - i div W) * 2 + (k mod W - i mod W))
            else pixel_at tex W k)"
    by (simp add: pixel_at_def uploadRegion_def defaultValue_def)
  show ?thesis
  proof (cases "k = i")
    case True
    then show ?thesis unfolding e r by simp
  next
    case False
    show ?thesis
    proof (cases "k = i + 1 \<and> i mod W + 1 < W")
      case True
      then have "k mod W = i mod W + 1 \<and> k div W = i div W"
        using next_pixel[OF assms, of k i] by simp
      then show ?thesis unfolding e r using True False by simp
    next
      case False
      then show ?thesis unfolding e r using \<open>k \<noteq> i\<close> by auto
    qed
  qed
qed


text \<open>
  So in the float layout the partial upload writes pixel \<open>i\<close>, which is where a full
  upload puts plane \<open>i\<close>, and nothing else. In the byte layout a full upload puts
  plane \<open>i\<close> into the pixels \<open>2 * i\<close> and \<open>2 * i + 1\<close>, but the partial upload writes the
  pixels \<open>i\<close> and \<open>i + 1\<close>: the offset is computed from the plane index, not from the
  index of its first pixel.

  Claim C1 says that in the dirty state single with index \<open>i\<close> \<open>update\<close> uploads only
  the region of plane \<open>i\<close> and leaves every other region of the buffer unchanged. On a
  host without float textures, take the collection of the planes 0 and 2 after its
  first \<open>update\<close> and change the distance of its second plane (index 1) to 9. The
  texture holds the normal and distance of plane 0 in the pixels 0 and 1 and those of
  plane 1 in the pixels 2 and 3. The partial \<open>update\<close> uploads two pixels at column 1:
  pixel 1, the distance of plane 0, now holds the normal of plane 1, pixel 2 holds the
  new distance where the normal of plane 1 belongs, and pixel 3 keeps the old distance 7.
\<close>

theorem partial_update_of_bytes_lands_on_wrong_pixels:
  "set_plane 0 2 unit_y (Fin 9) (fst two_planes, two_planes_bytes) =
     ((fst two_planes)(2 := ClippingPlane unit_y (Fin 9) 1 (Some 0)),
      two_planes_bytes\<lparr>dirtyIndex := 1\<rparr>)
   \<and> dirty_state_of (two_planes_bytes\<lparr>dirtyIndex := 1\<rparr>) = Single 1
   \<and> \<not> containsUntrackablePlanes (two_planes_bytes\<lparr>dirtyIndex := 1\<rparr>)
   \<and> update example_env byte_frame
        ((fst two_planes)(2 := ClippingPlane unit_y (Fin 9) 1 (Some 0)))
        (two_planes_bytes\<lparr>dirtyIndex := 1\<rparr>) =
      Inr (two_planes_bytes
             \<lparr>uint8View :=
                Some ([Fin 0, Fin 1, Fin 0, Fin 0, Fin 9, Fin 0, Fin 0, Fin 0,
                       Fin 0, Fin 1, Fin 0, Fin 0, Fin 7, Fin 0, Fin 0, Fin 0]
                      @ replicate 16 (Fin 0))\<rparr>,
           [Texture_copyFrom \<lparr>width = Fin 8, height = Fin 1, pixelDatatype = UNSIGNED_BYTE\<rparr>
              (Fin 2) (Fin 1)
              (Some ([Fin 0, Fin 1, Fin 0, Fin 0, Fin 9, Fin 0, Fin 0, Fin 0,
                      Fin 0, Fin 1, Fin 0, Fin 0, Fin 7, Fin 0, Fin 0, Fin 0]
                     @ replicate 16 (Fin 0)))
              (Some (Fin 1)) (Some (Fin 0))])
   \<and> map (pixel_at two_planes_bytes_texels 8) [0, 1, 2, 3] =
       [[Fin 1, Fin 0, Fin 0, Fin 0], [Fin 5, Fin 0, Fin 0, Fin 0],
        [Fin 0, Fin 1, Fin 0, Fin 0], [Fin 7, Fin 0, Fin 0, Fin 0]]
   \<and> map (pixel_at
          (gpu_exec
             (Texture_copyFrom \<lparr>width = Fin 8, height = Fin 1, pixelDatatype = UNSIGNED_BYTE\<rparr>
               (Fin 2) (Fin 1)
               (Some ([Fin 0, Fin 1, Fin 0, Fin 0, Fin 9, Fin 0, Fin 0, Fin 0,
                       Fin 0, Fin 1, Fin 0, Fin 0, Fin 7, Fin 0, Fin 0, Fin 0]
                      @ replicate 16 (Fin 0)))
               (Some (Fin 1)) (Some (Fin 0)))
             two_planes_bytes_texels) 8) [0, 1, 2, 3] =
       [[Fin 1, Fin 0, Fin 0, Fin 0], [Fin 0, Fin 1, Fin 0, Fin 0],
        [Fin 9, Fin 0, Fin 0, Fin 0], [Fin 7, Fin 0, Fin 0, Fin 0]]
   \<and> byte_slots example_env (ClippingPlane unit_y (Fin 9) 1 (Some 0)) =
       [Fin 0, Fin 1, Fin 0, Fin 0, Fin 9, Fin 0, Fin 0, Fin 0]"
proof -
  have d: "dirty_state_of (two_planes_bytes\<lparr>dirtyIndex := 1\<rparr>) = Single 1"
    "\<not> containsUntrackablePlanes (two_planes_bytes\<lparr>dirtyIndex := 1\<rparr>)"
    by (simp_all add: two_planes_bytes_def dirty_state_of_def)
  have b: "byte_slots example_env (ClippingPlane unit_y (Fin 9) 1 (Some 0)) =
       [Fin 0, Fin 1, Fin 0, Fin 0, Fin 9, Fin 0, Fin 0, Fin 0]"
    by (simp add: byte_slots_def example_env_def unit_y_def)
  show ?thesis
    using two_planes_bytes_changed d two_planes_bytes_partial texels_before texels_after b
    by (intro conjI)
qed


subsection \<open>The two copies of the mode\<close>

text \<open>
  Every operation keeps \<open>_testIntersection\<close> in step with \<open>_unionClippingRegions\<close>, so
  every collection a program can reach from the constructor satisfies the hypothesis
  under which the classifier was compared with the algorithm of the spec.
\<close>

lemma remove_mode:
  "testIntersection (snd (snd (remove e p hc))) = testIntersection (snd hc)
   \<and> unionClippingRegions (snd (snd (remove e p hc))) = unionClippingRegions (snd hc)"
  by (simp add: remove_def Let_def split_beta)

lemma step_mode_consistent:
  assumes "mode_consistent (w_coll w)" and "step e self op w = Inr (w', calls)"
  shows "mode_consistent (w_coll w')"
proof (cases op)
  case (Add p)
  with assms(2) have "w_coll w' = snd (add self p (w_heap w, w_coll w))"
    by (auto split: if_splits prod.splits)
  then show ?thesis using assms(1) by (simp add: mode_consistent_def add_fields)
next
  case (Remove p)
  with assms(2) have "w_coll w' = snd (snd (remove e p (w_heap w, w_coll w)))"
    by (auto split: if_splits prod.splits)
  then show ?thesis
    using assms(1) remove_mode[of e p "(w_heap w, w_coll w)"] by (simp add: mode_consistent_def)
next
  case RemoveAll
  with assms(2) have "w_coll w' = snd (removeAll (w_heap w, w_coll w))"
    by (auto split: if_splits prod.splits)
  then show ?thesis using assms(1) by (simp add: mode_consistent_def removeAll_def Let_def)
next
  case (Update fs)
  with assms(2) obtain c' where u: "update e fs (w_heap w) (w_coll w) = Inr (c', calls)"
    and c': "w_coll w' = c'"
    by (auto split: if_splits sum.splits prod.splits)
  show ?thesis using assms(1) update_flag(3,4)[OF u] c' by (simp add: mode_consistent_def)
next
  case (SetPlane r n d)
  with assms(2) have "w_coll w' = snd (set_plane self r n d (w_heap w, w_coll w))"
    by (auto split: if_splits prod.splits)
  then show ?thesis
    using assms(1)
    by (simp add: mode_consistent_def set_plane_def Let_def split: plane_obj.splits)
next
  case (SetUnionClippingRegions v)
  with assms show ?thesis by (auto simp: set_unionClippingRegions_mode_consistent)
next
  case (SetEnabled v)
  have "mode_consistent (set_enabled v (w_coll w))"
    using assms(1) by (simp add: set_enabled_def mode_consistent_def)
  with SetEnabled assms(2) show ?thesis by auto
next
  case Destroy
  with assms(2) have "w_coll w' = fst (destroy (w_coll w))"
    by (auto split: if_splits prod.splits)
  then show ?thesis using assms(1) by (simp add: destroy_def mode_consistent_def)
qed

lemma run_mode_consistent:
  "mode_consistent (w_coll w) \<Longrightarrow> run e self ops w = Inr (w', calls) \<Longrightarrow>
   mode_consistent (w_coll w')"
proof (induction ops arbitrary: w calls)
  case Nil
  then show ?case by simp
next
  case (Cons op ops)
  from Cons.prems(2) obtain w1 calls1 calls2 where
    s: "step e self op w = Inr (w1, calls1)" and r: "run e self ops w1 = Inr (w', calls2)"
    by (auto split: sum.splits)
  from step_mode_consistent[OF Cons.prems(1) s] Cons.IH r show ?case by blast
qed



subsection \<open>The full refresh\<close>

lemma planes_stored_intro:
  assumes s: "0 < s"
      and l: "length v' = length v"
      and frame: "\<forall>p < length v. p < 0 \<or> 0 + s * nat (int (length ps) - 0) \<le> p \<longrightarrow> v' ! p = v ! p"
      and slots: "\<forall>j. 0 \<le> j \<and> j < int (length ps) \<longrightarrow>
              (\<forall>q<s. 0 + s * nat (j - 0) + q < length v \<longrightarrow>
                 v' ! (0 + s * nat (j - 0) + q) = slots (h (ps ! nat j)) ! q)"
  shows "planes_stored slots s h ps v v'"
  unfolding planes_stored_def
proof (intro conjI allI impI)
  show "length v' = length v" by (rule l)
  fix p assume p: "p < length v"
  show "v' ! p = (if p < s * length ps then slots (h (ps ! (p div s))) ! (p mod s) else v ! p)"
  proof (cases "p < s * length ps")
    case True
    then have j: "p div s < length ps" using s by (simp add: less_mult_imp_div_less mult.commute)
    have q: "p mod s < s" using s by simp
    have e: "s * (p div s) + p mod s = p" by simp
    from slots[rule_format, of "int (p div s)" "p mod s"] j q p e True
    show ?thesis by simp
  next
    case False
    then show ?thesis using frame p by simp
  qed
qed

lemma packPlanesAsFloats_loop_all:
  "\<exists>v'. packPlanesAsFloats_loop e h ps (Some v) 0 0 (int (length ps)) = Inr (Some v')
        \<and> planes_stored (float_slots e) 4 h ps v v'"
proof -
  from pack_loop_generic[where L = "\<lambda>view k i. packPlanesAsFloats_loop e h ps view k i (int (length ps))"
      and n = "int (length ps)" and slots = "float_slots e" and h = h and ps = ps and s = 4
      and i = 0 and v = v and k = 0,
      OF packPlanesAsFloats_loop_step packPlanesAsFloats_loop_stop length_float_slots]
  obtain v' where r: "packPlanesAsFloats_loop e h ps (Some v) 0 0 (int (length ps)) = Inr (Some v')"
    and l: "length v' = length v"
    and f: "\<forall>p < length v. p < 0 \<or> 0 + 4 * nat (int (length ps) - 0) \<le> p \<longrightarrow> v' ! p = v ! p"
    and s: "\<forall>j. 0 \<le> j \<and> j < int (length ps) \<longrightarrow>
              (\<forall>q<4. 0 + 4 * nat (j - 0) + q < length v \<longrightarrow>
                 v' ! (0 + 4 * nat (j - 0) + q) = float_slots e (h (ps ! nat j)) ! q)"
    by auto
  have "planes_stored (float_slots e) 4 h ps v v'"
    by (rule planes_stored_intro[OF _ l f s]) simp
  then show ?thesis using r by blast
qed

lemma packPlanesAsUint8_loop_all:
  "\<exists>v'. packPlanesAsUint8_loop e h ps (Some v) 0 0 (int (length ps)) = Inr (Some v')
        \<and> planes_stored (byte_slots e) 8 h ps v v'"
proof -
  from pack_loop_generic[where L = "\<lambda>view k i. packPlanesAsUint8_loop e h ps view k i (int (length ps))"
      and n = "int (length ps)" and slots = "byte_slots e" and h = h and ps = ps and s = 8
      and i = 0 and v = v and k = 0,
      OF packPlanesAsUint8_loop_step packPlanesAsUint8_loop_stop length_byte_slots]
  obtain v' where r: "packPlanesAsUint8_loop e h ps (Some v) 0 0 (int (length ps)) = Inr (Some v')"
    and l: "length v' = length v"
    and f: "\<forall>p < length v. p < 0 \<or> 0 + 8 * nat (int (length ps) - 0) \<le> p \<longrightarrow> v' ! p = v ! p"
    and s: "\<forall>j. 0 \<le> j \<and> j < int (length ps) \<longrightarrow>
              (\<forall>q<8. 0 + 8 * nat (j - 0) + q < length v \<longrightarrow>
                 v' ! (0 + 8 * nat (j - 0) + q) = byte_slots e (h (ps ! nat j)) ! q)"
    by auto
  have "planes_stored (byte_slots e) 8 h ps v v'"
    by (rule planes_stored_intro[OF _ l f s]) simp
  then show ?thesis using r by blast
qed

text \<open>The two full branches of \<open>update\<close>: they cannot fail once a view exists.\<close>

lemma update_refresh_full:
  assumes "update_refresh e uf h c t True = Inr (c2, calls2)"
  shows "\<exists>call. calls2 = [call] \<and> full_refresh e uf h c c2 t call
          \<and> planes c2 = planes c \<and> clippingPlanesTexture c2 = clippingPlanesTexture c
          \<and> containsUntrackablePlanes c2 = containsUntrackablePlanes c"
proof (cases uf)
  case True
  show ?thesis
  proof (cases "float32View c")
    case None
    with assms True show ?thesis
      by (auto simp: update_refresh_def packPlanesAsFloats_def full_refresh_def view_in_use_def
          split: sum.splits dest!: packPlanesAsFloats_loop_no_view)
  next
    case (Some v)
    from packPlanesAsFloats_loop_all[of e h "planes c" v]
    obtain v' where "packPlanesAsFloats_loop e h (planes c) (Some v) 0 0 (int (length (planes c))) = Inr (Some v')"
      "planes_stored (float_slots e) 4 h (planes c) v v'" by blast
    with assms True Some show ?thesis
      by (auto simp: update_refresh_def packPlanesAsFloats_def full_refresh_def view_in_use_def
          stride_of_def slots_of_def)
  qed
next
  case False
  show ?thesis
  proof (cases "uint8View c")
    case None
    with assms False show ?thesis
      by (auto simp: update_refresh_def packPlanesAsUint8_def full_refresh_def view_in_use_def
          split: sum.splits dest!: packPlanesAsUint8_loop_no_view)
  next
    case (Some v)
    from packPlanesAsUint8_loop_all[of e h "planes c" v]
    obtain v' where "packPlanesAsUint8_loop e h (planes c) (Some v) 0 0 (int (length (planes c))) = Inr (Some v')"
      "planes_stored (byte_slots e) 8 h (planes c) v v'" by blast
    with assms False Some show ?thesis
      by (auto simp: update_refresh_def packPlanesAsUint8_def full_refresh_def view_in_use_def
          stride_of_def slots_of_def)
  qed
qed

lemma full_refresh_cleared:
  "full_refresh e uf h c1 (c\<lparr>multipleDirtyPlanes := a, dirtyIndex := b\<rparr>) t call
     = full_refresh e uf h c1 c t call"
  by (simp add: full_refresh_def view_in_use_def cong: option.case_cong)

lemma update_forced_full:
  assumes u: "update e fs h c = Inr (c', calls)"
      and t: "update_texture e (useFloatTexture (fs_context fs)) c = Inr (c1, t', calls1)"
      and f: "multipleDirtyPlanes c1 \<or> containsUntrackablePlanes c1"
  shows "\<exists>call. calls = calls1 @ [call] \<and> clippingPlanesTexture c' = Some t'
           \<and> full_refresh e (useFloatTexture (fs_context fs)) h c1 c' t' call"
proof -
  let ?uf = "useFloatTexture (fs_context fs)"
  from u t f obtain c2 calls2 where r: "update_refresh e ?uf h c1 t' True = Inr (c2, calls2)"
    and c': "c' = c2\<lparr>multipleDirtyPlanes := False, dirtyIndex := -1\<rparr>"
    and calls: "calls = calls1 @ calls2"
    by (auto simp: update_def Let_def split: sum.splits prod.splits if_splits)
  from update_refresh_full[OF r] obtain call where
    "calls2 = [call]" "full_refresh e ?uf h c1 c2 t' call"
    "clippingPlanesTexture c2 = clippingPlanesTexture c1" by blast
  then show ?thesis
    using c' calls update_texture_result[OF t] by (simp add: full_refresh_cleared)
qed

lemma planes_stored_holds:
  assumes "planes_stored slots s h ps v0 v" and "s * length ps \<le> length v0"
  shows "holds_all_planes slots s h ps v"
  unfolding holds_all_planes_def
proof (intro conjI allI impI)
  show "s * length ps \<le> length v" using assms by (simp add: planes_stored_def)
  fix j q assume j: "j < length ps" and q: "q < s"
  have "s * j + q < s * length ps"
  proof -
    have "s * j + q < s * j + s" using q by simp
    also have "\<dots> = s * Suc j" by simp
    also have "\<dots> \<le> s * length ps" using j by (simp only: mult_le_mono2 Suc_leI)
    finally show ?thesis .
  qed
  moreover have "(s * j + q) div s = j" "(s * j + q) mod s = q" using q by simp_all
  ultimately show "v ! (s * j + q) = slots (h (ps ! j)) ! q"
    using assms by (simp add: planes_stored_def)
qed



subsection \<open>The size of the buffer\<close>

lemma stride_pixels:
  "pixelsNeeded_of uf c = js_nat n \<Longrightarrow> stride_of uf * length (planes c) = 4 * n"
  by (auto simp: pixelsNeeded_of_def stride_of_def split: if_splits)

lemma resolution_for_pixels:
  assumes m: "maximumTextureSize e = js_nat m" "1 \<le> m" and n: "1 \<le> n"
  shows "\<exists>k c. 1 \<le> k \<and> 1 \<le> c \<and> computeTextureResolution e (js_nat n) = (js_nat k, js_nat c)
           \<and> n \<le> k * c"
proof -
  define k where "k = min n m"
  define ci where "ci = \<lceil>real n / real k\<rceil>"
  have k: "1 \<le> k" using n m(2) by (simp add: k_def)
  have kpos: "0 < real k" using k by simp
  have c1: "1 \<le> ci" unfolding ci_def using ceil_ratio_pos[OF n k] .
  have mk: "max (min n m) 1 = k" using k by (simp add: k_def)
  have mc: "max \<lceil>real n / real k\<rceil> 1 = ci" using c1 by (simp add: ci_def)
  have r: "computeTextureResolution e (js_nat n) = (js_nat k, js_int ci)"
    using computeTextureResolution_positive[OF n m(2) m(1)] by (simp only: mk mc)
  define c where "c = nat ci"
  have ci: "ci = int c" using c1 by (simp add: c_def)
  have lo: "real n / real k \<le> of_int ci" unfolding ci_def by (rule le_of_int_ceiling)
  have "real n \<le> real k * of_int ci"
    using lo kpos by (simp add: pos_divide_le_eq mult.commute)
  then have "real n \<le> real (k * c)" by (simp add: ci)
  then have a: "n \<le> k * c" by (simp only: of_nat_le_iff)
  have "1 \<le> c" using c1 by (simp add: c_def)
  then show ?thesis using k r a ci by auto
qed

lemma new_typed_array_nat:
  "new_typed_array (js_nat n) = Inr arr \<Longrightarrow> length arr = n"
  by (auto simp: Let_def split: if_splits)

lemma fresh_view_fits:
  assumes m: "maximumTextureSize e = js_nat m" "1 \<le> m"
      and r: "computeTextureResolution e (js_nat n) = (rx, ry)"
      and a: "new_typed_array (js_mul (js_mul (js_mul rx (Fin 2)) ry) (Fin 4)) = Inr arr"
  shows "4 * n \<le> length arr"
    and "1 \<le> n \<Longrightarrow> \<exists>W H. js_mul rx (Fin 2) = js_nat W \<and> ry = js_nat H \<and> length arr = 4 * W * H"
proof -
  have "4 * n \<le> length arr
        \<and> (1 \<le> n \<longrightarrow> (\<exists>W H. js_mul rx (Fin 2) = js_nat W \<and> ry = js_nat H \<and> length arr = 4 * W * H))"
  proof (cases "n = 0")
    case True
    then show ?thesis by simp
  next
    case False
    then have n: "1 \<le> n" by simp
    from resolution_for_pixels[OF m n] r obtain k c where
      kc: "1 \<le> k" "1 \<le> c" "rx = js_nat k" "ry = js_nat c" "n \<le> k * c" by auto
    have "js_mul (js_mul (js_mul rx (Fin 2)) ry) (Fin 4) = js_nat (k * 2 * c * 4)"
      using kc by simp
    then have l: "length arr = k * 2 * c * 4" using a new_typed_array_nat by metis
    have w: "js_mul rx (Fin 2) = js_nat (k * 2)" using kc by simp
    have "4 * n \<le> 4 * (k * c)" using kc(5) by simp
    also have "\<dots> \<le> length arr" using l by simp
    finally have "4 * n \<le> length arr" .
    moreover have "length arr = 4 * (k * 2) * c" using l by simp
    ultimately show ?thesis using w kc(4) by blast
  qed
  then show "4 * n \<le> length arr"
    and "1 \<le> n \<Longrightarrow> \<exists>W H. js_mul rx (Fin 2) = js_nat W \<and> ry = js_nat H \<and> length arr = 4 * W * H"
    by simp_all
qed

lemma must_recreate_nat:
  "width t = js_nat W \<Longrightarrow> height t = js_nat H \<Longrightarrow>
   must_recreate t (js_nat n) = (W * H < n \<or> 4 * n < W * H)"
proof -
  assume a: "width t = js_nat W" "height t = js_nat H"
  have 1: "(real W * real H < real n) = (W * H < n)"
    by (metis of_nat_less_iff of_nat_mult)
  have "(real n < 0.25 * (real W * real H)) = (real (4 * n) < real (W * H))"
    by (simp add: mult.commute)
  then have 2: "(real n < 0.25 * (real W * real H)) = (4 * n < W * H)"
    by (simp only: of_nat_less_iff)
  show ?thesis unfolding must_recreate_def Let_def a using 1 2 by simp
qed

lemma kept_view_fits:
  assumes b: "buffer_sized uf c" and t: "clippingPlanesTexture c = Some t"
      and k: "\<not> must_recreate t (pixelsNeeded_of uf c)" and v: "view_in_use uf c = Some v"
  shows "stride_of uf * length (planes c) \<le> length v"
proof -
  obtain n where n: "pixelsNeeded_of uf c = js_nat n" using pixelsNeeded_of_nat by blast
  from b t v obtain W H where wh: "width t = js_nat W" "height t = js_nat H"
    "length v = 4 * W * H" by (auto simp: buffer_sized_def)
  from k have "n \<le> W * H" unfolding n must_recreate_nat[OF wh(1,2)] by simp
  then show ?thesis using stride_pixels[OF n] wh(3) by simp
qed

text \<open>The two outcomes of lines 452 to 506.\<close>

lemma update_texture_cases:
  assumes "update_texture e uf c = Inr (c1, t, calls)"
  shows "(clippingPlanesTexture c = Some t \<and> \<not> must_recreate t (pixelsNeeded_of uf c)
            \<and> c1 = c \<and> calls = [])
         \<or> (\<exists>arr. new_typed_array
                     (js_mul (js_mul (js_mul (fst (computeTextureResolution e (pixelsNeeded_of uf c)))
                        (Fin 2)) (snd (computeTextureResolution e (pixelsNeeded_of uf c)))) (Fin 4))
                     = Inr arr
                 \<and> view_in_use uf c1 = Some arr
                 \<and> t = \<lparr>width = js_mul (fst (computeTextureResolution e (pixelsNeeded_of uf c))) (Fin 2),
                        height = snd (computeTextureResolution e (pixelsNeeded_of uf c)),
                        pixelDatatype = (if uf then FLOAT else UNSIGNED_BYTE)\<rparr>
                 \<and> (clippingPlanesTexture c = None
                      \<or> (\<exists>t0. clippingPlanesTexture c = Some t0
                                \<and> must_recreate t0 (pixelsNeeded_of uf c))))"
  using assms unfolding update_texture_def Let_def view_in_use_def
  by (auto split: prod.splits option.splits if_splits sum.splits)

lemma update_texture_view_fits:
  assumes m: "maximumTextureSize e = js_nat m" "1 \<le> m"
      and b: "buffer_sized uf c"
      and u: "update_texture e uf c = Inr (c1, t, calls)"
      and v: "view_in_use uf c1 = Some v0"
  shows "stride_of uf * length (planes c) \<le> length v0"
proof -
  obtain n where n: "pixelsNeeded_of uf c = js_nat n" using pixelsNeeded_of_nat by blast
  from update_texture_cases[OF u] show ?thesis
  proof
    assume "clippingPlanesTexture c = Some t \<and> \<not> must_recreate t (pixelsNeeded_of uf c)
            \<and> c1 = c \<and> calls = []"
    then show ?thesis using kept_view_fits[OF b] v by blast
  next
    assume "\<exists>arr. new_typed_array
                     (js_mul (js_mul (js_mul (fst (computeTextureResolution e (pixelsNeeded_of uf c)))
                        (Fin 2)) (snd (computeTextureResolution e (pixelsNeeded_of uf c)))) (Fin 4))
                     = Inr arr
                 \<and> view_in_use uf c1 = Some arr
                 \<and> t = \<lparr>width = js_mul (fst (computeTextureResolution e (pixelsNeeded_of uf c))) (Fin 2),
                        height = snd (computeTextureResolution e (pixelsNeeded_of uf c)),
                        pixelDatatype = (if uf then FLOAT else UNSIGNED_BYTE)\<rparr>
                 \<and> (clippingPlanesTexture c = None
                      \<or> (\<exists>t0. clippingPlanesTexture c = Some t0
                                \<and> must_recreate t0 (pixelsNeeded_of uf c)))"
    then have a: "new_typed_array
                     (js_mul (js_mul (js_mul (fst (computeTextureResolution e (js_nat n)))
                        (Fin 2)) (snd (computeTextureResolution e (js_nat n)))) (Fin 4))
                     = Inr v0"
      using v unfolding n by auto
    have "4 * n \<le> length v0"
      by (rule fresh_view_fits(1)[OF m _ a]) simp
    then show ?thesis using stride_pixels[OF n] by simp
  qed
qed



subsection \<open>Untracked planes\<close>

text \<open>
  Claim C6. Adding an untracked plane sets \<open>_containsUntrackablePlanes\<close>; no operation
  clears it again, neither \<open>remove\<close> of that plane nor \<open>removeAll\<close>; and while it is set
  every \<open>update\<close> that returns has done a full refresh, never a partial upload and never
  nothing: after the texture stage it encodes the whole plane sequence into the view in
  use, so that slot \<open>p\<close> of the view holds slot \<open>p mod stride\<close> of plane \<open>p div stride\<close>,
  and its last call uploads that view to the whole texture. When the buffer is sized,
  the view is long enough and every plane of the sequence stands in it.
\<close>

theorem untracked_plane_forces_full_refresh_forever:
  "(\<not> instanceof_ClippingPlane (h p) \<longrightarrow> containsUntrackablePlanes (snd (add self p (h, c))))
   \<and> (containsUntrackablePlanes (w_coll w) \<and> run e self ops w = Inr (w', calls) \<longrightarrow>
        containsUntrackablePlanes (w_coll w'))
   \<and> (containsUntrackablePlanes cu \<and> update e fs hu cu = Inr (cu', ucalls) \<longrightarrow>
        (\<exists>c1 t calls1 call.
            update_texture e (useFloatTexture (fs_context fs)) cu = Inr (c1, t, calls1)
            \<and> clippingPlanesTexture cu' = Some t \<and> ucalls = calls1 @ [call]
            \<and> full_refresh e (useFloatTexture (fs_context fs)) hu c1 cu' t call))
   \<and> (containsUntrackablePlanes cu \<and> update e fs hu cu = Inr (cu', ucalls)
        \<and> maximumTextureSize e = js_nat m \<and> 1 \<le> m
        \<and> buffer_sized (useFloatTexture (fs_context fs)) cu \<longrightarrow>
        (case view_in_use (useFloatTexture (fs_context fs)) cu' of
           None \<Rightarrow> planes cu' = []
         | Some v \<Rightarrow>
             holds_all_planes (slots_of e (useFloatTexture (fs_context fs)))
               (stride_of (useFloatTexture (fs_context fs))) hu (planes cu') v))"
proof -
  let ?uf = "useFloatTexture (fs_context fs)"
  have three: "\<exists>c1 t calls1 call.
            update_texture e ?uf cu = Inr (c1, t, calls1)
            \<and> clippingPlanesTexture cu' = Some t \<and> ucalls = calls1 @ [call]
            \<and> full_refresh e ?uf hu c1 cu' t call"
    if a: "containsUntrackablePlanes cu" "update e fs hu cu = Inr (cu', ucalls)"
  proof -
    from update_texture_total[OF a(2)] obtain c1 t' calls1 where
      t: "update_texture e ?uf cu = Inr (c1, t', calls1)" by blast
    have "containsUntrackablePlanes c1" using update_texture_result[OF t] a(1) by simp
    with update_forced_full[OF a(2) t] show ?thesis using t by blast
  qed
  have four: "case view_in_use ?uf cu' of
           None \<Rightarrow> planes cu' = []
         | Some v \<Rightarrow> holds_all_planes (slots_of e ?uf) (stride_of ?uf) hu (planes cu') v"
    if a: "containsUntrackablePlanes cu" "update e fs hu cu = Inr (cu', ucalls)"
      and m: "maximumTextureSize e = js_nat m" "1 \<le> m" and b: "buffer_sized ?uf cu"
  proof -
    from three[OF a] obtain c1 t calls1 call where
      t: "update_texture e ?uf cu = Inr (c1, t, calls1)"
      and f: "full_refresh e ?uf hu c1 cu' t call" by blast
    have ps: "planes c1 = planes cu" "planes cu' = planes cu"
      using update_texture_result[OF t] update_flag(2)[OF a(2)] by simp_all
    show ?thesis
    proof (cases "view_in_use ?uf c1")
      case None
      then show ?thesis using f ps by (simp add: full_refresh_def)
    next
      case (Some v0)
      with f obtain v where v: "view_in_use ?uf cu' = Some v"
        "planes_stored (slots_of e ?uf) (stride_of ?uf) hu (planes c1) v0 v"
        by (auto simp: full_refresh_def)
      have "stride_of ?uf * length (planes cu) \<le> length v0"
        using update_texture_view_fits[OF m b t Some] .
      then have "holds_all_planes (slots_of e ?uf) (stride_of ?uf) hu (planes c1) v"
        using planes_stored_holds[OF v(2)] ps by simp
      then show ?thesis using v(1) ps by simp
    qed
  qed
  show ?thesis
    using add_untracked_sets_flag run_flag three four by blast
qed

lemma one_untracked_update_texture:
  "update_texture example_env True one_untracked_float =
     Inr (one_untracked_float, \<lparr>width = Fin 2, height = Fin 1, pixelDatatype = FLOAT\<rparr>, [])"
  by (simp add: update_texture_def pixelsNeeded_of_def example_resolution Let_def
      must_recreate_def one_untracked_float_def)

theorem untracked_plane_forces_full_refresh_forever_witness:
  "\<not> instanceof_ClippingPlane (example_heap 3)
   \<and> containsUntrackablePlanes (snd (add 0 3 (example_heap, snd no_planes)))
   \<and> containsUntrackablePlanes (w_coll (new_world one_untracked))
   \<and> run example_env 0 [Remove 3, RemoveAll] (new_world one_untracked) =
       Inr (new_world (example_heap,
              (snd one_untracked)\<lparr>multipleDirtyPlanes := True, planes := []\<rparr>), [])
   \<and> containsUntrackablePlanes
        (w_coll (new_world (example_heap,
              (snd one_untracked)\<lparr>multipleDirtyPlanes := True, planes := []\<rparr>)))
   \<and> dirty_state_of one_untracked_float = Clean
   \<and> maximumTextureSize example_env = js_nat 16384
   \<and> buffer_sized True one_untracked_float
   \<and> update example_env float_frame (fst one_untracked) one_untracked_float =
       Inr (one_untracked_float,
            [Texture_copyFrom \<lparr>width = Fin 2, height = Fin 1, pixelDatatype = FLOAT\<rparr>
               (Fin 2) (Fin 1) (float32View one_untracked_float) None None])
   \<and> full_refresh example_env True (fst one_untracked) one_untracked_float one_untracked_float
        \<lparr>width = Fin 2, height = Fin 1, pixelDatatype = FLOAT\<rparr>
        (Texture_copyFrom \<lparr>width = Fin 2, height = Fin 1, pixelDatatype = FLOAT\<rparr>
               (Fin 2) (Fin 1) (float32View one_untracked_float) None None)
   \<and> planes one_untracked_float = [3]
   \<and> float_slots example_env (fst one_untracked 3) = [Fin 1, Fin 0, Fin 0, Fin 3]
   \<and> holds_all_planes (float_slots example_env) 4 (fst one_untracked) [3]
        [Fin 1, Fin 0, Fin 0, Fin 3, Fin 0, Fin 0, Fin 0, Fin 0]"
proof -
  have a: "\<not> instanceof_ClippingPlane (example_heap 3)"
    by (simp add: example_heap_def)
  have b: "containsUntrackablePlanes (w_coll (new_world one_untracked))"
    by (simp add: new_world_def one_untracked_eval)
  have c: "containsUntrackablePlanes one_untracked_float"
    by (simp add: one_untracked_float_def)
  have t: "clippingPlanesTexture one_untracked_float
             = Some \<lparr>width = Fin 2, height = Fin 1, pixelDatatype = FLOAT\<rparr>"
    by (simp add: one_untracked_float_def)
  have d: "dirty_state_of one_untracked_float = Clean"
    by (simp add: one_untracked_float_def dirty_state_of_def)
  have m: "maximumTextureSize example_env = js_nat 16384" "(1::nat) \<le> 16384"
    by (simp_all add: example_env_def)
  have "width \<lparr>width = Fin 2, height = Fin 1, pixelDatatype = FLOAT\<rparr> = js_nat 2
        \<and> height \<lparr>width = Fin 2, height = Fin 1, pixelDatatype = FLOAT\<rparr> = js_nat 1
        \<and> (8::nat) = 4 * 2 * 1" by simp
  then have s: "buffer_sized True one_untracked_float"
    unfolding buffer_sized_def view_in_use_def one_untracked_float_def
    by (simp del: of_nat_numeral)
  have v: "view_in_use True one_untracked_float
             = Some [Fin 1, Fin 0, Fin 0, Fin 3, Fin 0, Fin 0, Fin 0, Fin 0]"
    "planes one_untracked_float = [3]"
    by (simp_all add: view_in_use_def one_untracked_float_def)
  have sl: "float_slots example_env (fst one_untracked 3) = [Fin 1, Fin 0, Fin 0, Fin 3]"
    by (simp add: float_slots_def example_env_def one_untracked_eval example_heap_def unit_x_def)
  show ?thesis
    using a b c d t m(1) s v(2) sl remove_then_removeAll one_untracked_update_again
      untracked_plane_forces_full_refresh_forever
        [where h = example_heap and p = 3 and self = 0 and c = "snd no_planes"
          and w = "new_world one_untracked" and e = example_env
          and ops = "[Remove 3, RemoveAll]"
          and w' = "new_world (example_heap,
              (snd one_untracked)\<lparr>multipleDirtyPlanes := True, planes := []\<rparr>)"
          and calls = "[]"
          and cu = one_untracked_float and fs = float_frame and hu = "fst one_untracked"
          and cu' = one_untracked_float and m = 16384
          and ucalls = "[Texture_copyFrom
               \<lparr>width = Fin 2, height = Fin 1, pixelDatatype = FLOAT\<rparr>
               (Fin 2) (Fin 1) (float32View one_untracked_float) None None]"]
    by (simp add: float_frame_def useFloatTexture_def one_untracked_update_texture v
        slots_of_def stride_of_def)
qed



subsection \<open>The resize policy\<close>

text \<open>
  For a texture that is a whole number of pixels wide and tall, with capacity
  \<open>C = W * H\<close>, and \<open>N\<close> pixels needed, \<open>update\<close> makes a new texture if and only if
  \<open>C < N\<close> or \<open>N < C / 4\<close>, and then every plane stands in the new view that it uploads.
\<close>

lemma resize_policy_of_sized_texture:
  assumes t: "clippingPlanesTexture c = Some t" "width t = js_nat W" "height t = js_nat H"
      and m: "maximumTextureSize e = js_nat m" "1 \<le> m"
      and u: "update e fs h c = Inr (c', calls)"
      and n: "pixelsNeeded_of (useFloatTexture (fs_context fs)) c = js_nat n"
  shows "if W * H < n \<or> 4 * n < W * H
         then (\<exists>t' call v. calls = [Texture_destroy t, Texture_new t', call]
                 \<and> clippingPlanesTexture c' = Some t'
                 \<and> view_in_use (useFloatTexture (fs_context fs)) c' = Some v
                 \<and> call = Texture_copyFrom t' (width t') (height t') (Some v) None None
                 \<and> holds_all_planes (slots_of e (useFloatTexture (fs_context fs)))
                      (stride_of (useFloatTexture (fs_context fs))) h (planes c') v)
         else clippingPlanesTexture c' = Some t
              \<and> (\<forall>t'. Texture_new t' \<notin> set calls \<and> Texture_destroy t' \<notin> set calls)"
proof (cases "must_recreate t (js_nat n)")
  case True
  let ?uf = "useFloatTexture (fs_context fs)"
  from update_texture_total[OF u] obtain c1 t' calls1 where
    ut: "update_texture e ?uf c = Inr (c1, t', calls1)" by blast
  from update_texture_recreate[OF ut t(1)] True n
  have c1: "calls1 = [Texture_destroy t, Texture_new t']" "multipleDirtyPlanes c1" by simp_all
  from update_forced_full[OF u ut] c1 obtain call where
    call: "calls = calls1 @ [call]" "clippingPlanesTexture c' = Some t'"
    "full_refresh e ?uf h c1 c' t' call" by blast
  from update_texture_cases[OF ut] True t(1) n obtain arr where
    arr: "new_typed_array
            (js_mul (js_mul (js_mul (fst (computeTextureResolution e (js_nat n))) (Fin 2))
               (snd (computeTextureResolution e (js_nat n)))) (Fin 4)) = Inr arr"
    "view_in_use ?uf c1 = Some arr" by auto
  have "4 * n \<le> length arr" by (rule fresh_view_fits(1)[OF m _ arr(1)]) simp
  then have fit: "stride_of ?uf * length (planes c) \<le> length arr"
    using stride_pixels[OF n] by simp
  have ps: "planes c1 = planes c" "planes c' = planes c"
    using update_texture_result[OF ut] update_flag(2)[OF u] by simp_all
  from call(3) arr(2) obtain v where v: "view_in_use ?uf c' = Some v"
    "planes_stored (slots_of e ?uf) (stride_of ?uf) h (planes c1) arr v"
    "call = Texture_copyFrom t' (width t') (height t') (Some v) None None"
    by (auto simp: full_refresh_def)
  have "holds_all_planes (slots_of e ?uf) (stride_of ?uf) h (planes c') v"
    using planes_stored_holds[OF v(2)] fit ps by simp
  with call c1 v have "\<exists>t' call v. calls = [Texture_destroy t, Texture_new t', call]
                 \<and> clippingPlanesTexture c' = Some t'
                 \<and> view_in_use ?uf c' = Some v
                 \<and> call = Texture_copyFrom t' (width t') (height t') (Some v) None None
                 \<and> holds_all_planes (slots_of e ?uf) (stride_of ?uf) h (planes c') v"
    by simp
  moreover have "W * H < n \<or> 4 * n < W * H"
    using True must_recreate_nat[OF t(2,3)] by simp
  ultimately show ?thesis by (subst if_P) assumption+
next
  case False
  let ?uf = "useFloatTexture (fs_context fs)"
  have ut: "update_texture e ?uf c = Inr (c, t, [])"
    using update_texture_keep[OF t(1)] False n by simp
  have "clippingPlanesTexture c' = Some t
        \<and> (\<forall>t'. Texture_new t' \<notin> set calls \<and> Texture_destroy t' \<notin> set calls)"
    using update_cases[OF u] ut t(1) update_refresh_fields
    by fastforce
  moreover have "\<not> (W * H < n \<or> 4 * n < W * H)"
    using False must_recreate_nat[OF t(2,3)] by simp
  ultimately show ?thesis by (subst if_not_P) assumption+
qed

lemma resize_policy_of_sized_texture_instances:
  "(\<exists>v. update example_env float_frame (fst three_planes) (snd three_planes) =
       Inr (three_planes_float,
          [Texture_destroy \<lparr>width = Fin 2, height = Fin 1, pixelDatatype = FLOAT\<rparr>,
           Texture_new \<lparr>width = Fin 6, height = Fin 1, pixelDatatype = FLOAT\<rparr>,
           Texture_copyFrom \<lparr>width = Fin 6, height = Fin 1, pixelDatatype = FLOAT\<rparr>
             (Fin 6) (Fin 1) (Some v) None None])
      \<and> float32View three_planes_float = Some v
      \<and> holds_all_planes (float_slots example_env) 4 (fst three_planes)
           (planes three_planes_float) v)
   \<and> update example_env float_frame (fst one_untracked) one_untracked_float =
       Inr (one_untracked_float,
            [Texture_copyFrom \<lparr>width = Fin 2, height = Fin 1, pixelDatatype = FLOAT\<rparr>
               (Fin 2) (Fin 1) (float32View one_untracked_float) None None])"
proof -
  let ?t = "\<lparr>width = Fin 2, height = Fin 1, pixelDatatype = FLOAT\<rparr>"
  have t3: "clippingPlanesTexture (snd three_planes) = Some ?t"
    by (simp add: three_planes_eval one_untracked_float_def)
  have n3: "pixelsNeeded_of (useFloatTexture (fs_context float_frame)) (snd three_planes) = js_nat 3"
    by (simp add: three_planes_eval pixelsNeeded_of_def float_frame_def useFloatTexture_def)
  have wh: "width ?t = js_nat 2" "height ?t = js_nat 1" by simp_all
  have m: "maximumTextureSize example_env = js_nat 16384" "1 \<le> (16384::nat)"
    by (simp_all add: example_env_def)
  show ?thesis
    using three_planes_update_float one_untracked_update_again
      resize_policy_of_sized_texture [OF t3 wh m three_planes_update_float n3]
    by (simp add: float_frame_def useFloatTexture_def slots_of_def stride_of_def
        del: of_nat_numeral) blast
qed

lemma no_planes_heap: "fst no_planes = example_heap"
  by (simp add: no_planes_def ClippingPlaneCollection_def no_options_def defaultValue_def)

text \<open>
  Claim C4 says that for every capacity \<open>C\<close> of the existing buffer, in pixels, and every
  number \<open>N\<close> of pixels needed, \<open>update\<close> reallocates the buffer if and only if \<open>N > C\<close>
  or \<open>N < 0.25 * C\<close>, and that a reallocation forces a full re-encode of all planes.
  The code takes \<open>C\<close> to be the product of the texture's width and height, and the first
  \<open>update\<close> of a collection with no planes makes a texture of width 2 and height \<open>NaN\<close>
  over a buffer of no slots at all. After one plane is added, \<open>N = 1\<close> pixel is needed
  and the buffer holds 0 pixels, yet both comparisons with \<open>NaN\<close> are false: the next
  \<open>update\<close> keeps the texture and the empty buffer, encodes the plane nowhere, and
  uploads the empty buffer to the region of one pixel at the origin.
\<close>

theorem texture_made_for_no_planes_is_never_replaced:
  "run example_env 0 [Update float_frame, Add 0] (new_world no_planes) =
     Inr (\<lparr>w_heap = example_heap(0 := ClippingPlane unit_x (Fin 5) 0 (Some 0)),
           w_coll = (snd no_planes)
             \<lparr>planes := [0], dirtyIndex := 0, float32View := Some [],
              clippingPlanesTexture :=
                Some \<lparr>width = Fin 2, height = NaN, pixelDatatype = FLOAT\<rparr>\<rparr>,
           w_destroyed = False\<rparr>,
          [Texture_new \<lparr>width = Fin 2, height = NaN, pixelDatatype = FLOAT\<rparr>,
           Texture_copyFrom \<lparr>width = Fin 2, height = NaN, pixelDatatype = FLOAT\<rparr>
             (Fin 2) NaN (Some []) None None])
   \<and> pixelsNeeded_of True
        ((snd no_planes)
             \<lparr>planes := [0], dirtyIndex := 0, float32View := Some [],
              clippingPlanesTexture :=
                Some \<lparr>width = Fin 2, height = NaN, pixelDatatype = FLOAT\<rparr>\<rparr>) = Fin 1
   \<and> update example_env float_frame (example_heap(0 := ClippingPlane unit_x (Fin 5) 0 (Some 0)))
        ((snd no_planes)
             \<lparr>planes := [0], dirtyIndex := 0, float32View := Some [],
              clippingPlanesTexture :=
                Some \<lparr>width = Fin 2, height = NaN, pixelDatatype = FLOAT\<rparr>\<rparr>) =
       Inr ((snd no_planes)
             \<lparr>planes := [0], float32View := Some [],
              clippingPlanesTexture :=
                Some \<lparr>width = Fin 2, height = NaN, pixelDatatype = FLOAT\<rparr>\<rparr>,
            [Texture_copyFrom \<lparr>width = Fin 2, height = NaN, pixelDatatype = FLOAT\<rparr>
               (Fin 1) (Fin 1) (Some []) (Some (Fin 0)) (Some (Fin 0))])"
proof (intro conjI)
  show "run example_env 0 [Update float_frame, Add 0] (new_world no_planes) =
     Inr (\<lparr>w_heap = example_heap(0 := ClippingPlane unit_x (Fin 5) 0 (Some 0)),
           w_coll = (snd no_planes)
             \<lparr>planes := [0], dirtyIndex := 0, float32View := Some [],
              clippingPlanesTexture :=
                Some \<lparr>width = Fin 2, height = NaN, pixelDatatype = FLOAT\<rparr>\<rparr>,
           w_destroyed = False\<rparr>,
          [Texture_new \<lparr>width = Fin 2, height = NaN, pixelDatatype = FLOAT\<rparr>,
           Texture_copyFrom \<lparr>width = Fin 2, height = NaN, pixelDatatype = FLOAT\<rparr>
             (Fin 2) NaN (Some []) None None])"
    using update_of_empty_collection no_planes_heap
    by (simp add: new_world_def add_def Let_def no_planes_coll setIndexDirty_def
        example_heap_def)
  show "pixelsNeeded_of True
        ((snd no_planes)
             \<lparr>planes := [0], dirtyIndex := 0, float32View := Some [],
              clippingPlanesTexture :=
                Some \<lparr>width = Fin 2, height = NaN, pixelDatatype = FLOAT\<rparr>\<rparr>) = Fin 1"
    by (simp add: pixelsNeeded_of_def)
  show "update example_env float_frame (example_heap(0 := ClippingPlane unit_x (Fin 5) 0 (Some 0)))
        ((snd no_planes)
             \<lparr>planes := [0], dirtyIndex := 0, float32View := Some [],
              clippingPlanesTexture :=
                Some \<lparr>width = Fin 2, height = NaN, pixelDatatype = FLOAT\<rparr>\<rparr>) =
       Inr ((snd no_planes)
             \<lparr>planes := [0], float32View := Some [],
              clippingPlanesTexture :=
                Some \<lparr>width = Fin 2, height = NaN, pixelDatatype = FLOAT\<rparr>\<rparr>,
            [Texture_copyFrom \<lparr>width = Fin 2, height = NaN, pixelDatatype = FLOAT\<rparr>
               (Fin 1) (Fin 1) (Some []) (Some (Fin 0)) (Some (Fin 0))])"
    by (simp add: update_def update_texture_def no_planes_coll float_frame_def
        useFloatTexture_def pixelsNeeded_of_def Let_def update_refresh_def must_recreate_def
        packPlanesAsFloats_def packPlanesAsFloats_loop.simps planes_at_def)
qed


end
